theory Spec2Isabelle
  imports Main
begin

section \<open>Strings and JavaScript values\<close>

text \<open>
  A JavaScript string is a sequence of code units. The model takes the code units from
  the Latin-1 range (below 256, which holds the Danish alphabet), so a string is a
  \<open>char list\<close> and \<open>length\<close> counts what \<open>.length\<close> counts.
  A property that may be missing from an object is an \<open>option\<close> field: \<open>None\<close> is
  \<open>undefined\<close>.
\<close>

definition truthy :: "string option \<Rightarrow> bool" where
  \<comment> \<open>a string-valued property in a condition: missing and the empty string are falsy\<close>
  "truthy v = (case v of None \<Rightarrow> False | Some s \<Rightarrow> s \<noteq> [])"

definition jsOr :: "string option \<Rightarrow> string option \<Rightarrow> string option" where
  \<comment> \<open>\<open>a || b\<close> on string-valued properties\<close>
  "jsOr a b = (if truthy a then a else b)"

section \<open>The vocabulary dataset\<close>

text \<open>
  The module \<open>vocabulary.js\<close> is not among the sources, so the dataset is a parameter:
  level \<open>\<rightarrow>\<close> category \<open>\<rightarrow>\<close> word \<open>\<rightarrow>\<close> entry, each object given as the list of its
  properties in \<open>for ... in\<close> order. An entry carries the properties the code reads from
  a dataset entry: \<open>en\<close>, \<open>et\<close>, \<open>example\<close>, \<open>translated\<close>, \<open>conjugations\<close>
  (tense \<open>\<rightarrow>\<close> form) and \<open>et_form\<close>.
\<close>

record entry =
  en :: "string option"
  et :: "string option"
  example :: "string option"
  translated :: "string option"
  conjugations :: "(string \<times> string) list option"
  et_form :: "string option"

type_synonym vocabulary = "(string \<times> (string \<times> (string \<times> entry) list) list) list"

text \<open>
  A value of the \<open>allWords\<close> map: a dataset entry spread into a fresh object together
  with \<open>category\<close> and \<open>level\<close>, or a derived record with \<open>root\<close>, \<open>category\<close>,
  \<open>conjugatedForm\<close> or \<open>et_form\<close>, \<open>baseEn\<close> and \<open>level\<close>.
\<close>

record wordData = entry +
  category :: string
  level :: string
  root :: "string option"
  conjugatedForm :: "string option"
  baseEn :: "string option"

text \<open>
  A JavaScript \<open>Map\<close> keeps its keys in insertion order: \<open>set\<close> on a present key
  replaces the value in place, on a new key it appends.
\<close>

type_synonym 'v jsMap = "(string \<times> 'v) list"

fun mapSet :: "string \<Rightarrow> 'v \<Rightarrow> 'v jsMap \<Rightarrow> 'v jsMap" where
  "mapSet k v [] = [(k, v)]"
| "mapSet k v ((k', v') # m) = (if k' = k then (k, v) # m else (k', v') # mapSet k v m)"

definition mapGet :: "'v jsMap \<Rightarrow> string \<Rightarrow> 'v option" where
  "mapGet m k = map_of m k"

definition mapHas :: "'v jsMap \<Rightarrow> string \<Rightarrow> bool" where
  "mapHas m k = (map_of m k \<noteq> None)"

definition mapValues :: "'v jsMap \<Rightarrow> 'v list" where
  "mapValues m = map snd m"

section \<open>VocabularyManager\<close>

record vocabularyManager =
  vocabulary :: vocabulary
  allWordsCache :: "wordData jsMap option"
  allVerbsCache :: "string set option"
  allNounsCache :: "string set option"
  allAdjectivesCache :: "string set option"

definition newVocabularyManager :: "vocabulary \<Rightarrow> vocabularyManager" where
  "newVocabularyManager v =
     \<lparr>vocabulary = v, allWordsCache = None, allVerbsCache = None,
      allNounsCache = None, allAdjectivesCache = None\<rparr>"

definition getWordsForLevel :: "vocabularyManager \<Rightarrow> string \<Rightarrow> (string \<times> (string \<times> entry) list) list" where
  "getWordsForLevel vm lv = (case map_of (vocabulary vm) lv of Some cats \<Rightarrow> cats | None \<Rightarrow> [])"

subsection \<open>getAllWords\<close>

definition rootRecord :: "string \<Rightarrow> string \<Rightarrow> entry \<Rightarrow> wordData" where
  \<comment> \<open>\<open>{...entry, category: category, level: level}\<close>\<close>
  "rootRecord cat lv e =
     \<lparr>en = en e, et = et e, example = example e, translated = translated e,
      conjugations = conjugations e, et_form = et_form e,
      category = cat, level = lv, root = None, conjugatedForm = None, baseEn = None\<rparr>"

definition conjugatedRecord :: "string \<Rightarrow> string \<Rightarrow> wordData \<Rightarrow> string \<Rightarrow> wordData" where
  "conjugatedRecord word lv wd form =
     \<lparr>en = None, et = None, example = None, translated = None,
      conjugations = None, et_form = None,
      category = ''verbs'', level = lv, root = Some word, conjugatedForm = Some form,
      baseEn = en wd\<rparr>"

definition etFormRecord :: "string \<Rightarrow> string \<Rightarrow> wordData \<Rightarrow> wordData" where
  "etFormRecord word lv wd =
     \<lparr>en = None, et = None, example = None, translated = None,
      conjugations = None, et_form = et_form wd,
      category = ''adjectives'', level = lv, root = Some word, conjugatedForm = None,
      baseEn = en wd\<rparr>"

definition addConjugation :: "string \<Rightarrow> string \<Rightarrow> wordData \<Rightarrow> wordData jsMap \<Rightarrow> string \<times> string \<Rightarrow> wordData jsMap" where
  "addConjugation word lv wd allWords tf =
     (let form = snd tf in
      if form \<noteq> word \<and> \<not> mapHas allWords form
      then mapSet form (conjugatedRecord word lv wd form) allWords
      else allWords)"

definition addWord :: "string \<Rightarrow> string \<Rightarrow> wordData jsMap \<Rightarrow> string \<times> entry \<Rightarrow> wordData jsMap" where
  "addWord lv cat allWords we =
     (let word = fst we;
          wd = rootRecord cat lv (snd we);
          m1 = mapSet word wd allWords;
          m2 = (case conjugations wd of
                  Some cs \<Rightarrow> if cat = ''verbs'' then foldl (addConjugation word lv wd) m1 cs else m1
                | None \<Rightarrow> m1)
      in if cat = ''adjectives'' \<and> truthy (et_form wd) \<and> et_form wd \<noteq> Some word
         then mapSet (the (et_form wd)) (etFormRecord word lv wd) m2
         else m2)"

definition buildAllWords :: "vocabulary \<Rightarrow> wordData jsMap" where
  "buildAllWords v =
     foldl (\<lambda>m lc. foldl (\<lambda>m cw. foldl (addWord (fst lc) (fst cw)) m (snd cw)) m (snd lc)) [] v"

definition getAllWords :: "vocabularyManager \<Rightarrow> wordData jsMap \<times> vocabularyManager" where
  "getAllWords vm =
     (case allWordsCache vm of
        Some c \<Rightarrow> (c, vm)
      | None \<Rightarrow> (let allWords = buildAllWords (vocabulary vm)
                 in (allWords, vm\<lparr>allWordsCache := Some allWords\<rparr>)))"

definition getWordData :: "vocabularyManager \<Rightarrow> string \<Rightarrow> wordData option \<times> vocabularyManager" where
  "getWordData vm word = (let (allWords, vm') = getAllWords vm in (mapGet allWords word, vm'))"

subsection \<open>getAllVerbs, getAllNouns, getAllAdjectives\<close>

definition rootsOf :: "string \<Rightarrow> vocabulary \<Rightarrow> string set" where
  \<comment> \<open>the loop shared by the three getters: the keys of \<open>vocabulary[level][cat]\<close>, all levels\<close>
  "rootsOf cat v =
     foldl (\<lambda>acc lc. case map_of (snd lc) cat of
                         Some ws \<Rightarrow> foldl (\<lambda>acc w. insert (fst w) acc) acc ws
                       | None \<Rightarrow> acc) {} v"

definition getAllVerbs :: "vocabularyManager \<Rightarrow> string set \<times> vocabularyManager" where
  "getAllVerbs vm =
     (case allVerbsCache vm of
        Some c \<Rightarrow> (c, vm)
      | None \<Rightarrow> (let allVerbs = rootsOf ''verbs'' (vocabulary vm)
                 in (allVerbs, vm\<lparr>allVerbsCache := Some allVerbs\<rparr>)))"

definition getAllNouns :: "vocabularyManager \<Rightarrow> string set \<times> vocabularyManager" where
  "getAllNouns vm =
     (case allNounsCache vm of
        Some c \<Rightarrow> (c, vm)
      | None \<Rightarrow> (let allNouns = rootsOf ''nouns'' (vocabulary vm)
                 in (allNouns, vm\<lparr>allNounsCache := Some allNouns\<rparr>)))"

definition getAllAdjectives :: "vocabularyManager \<Rightarrow> string set \<times> vocabularyManager" where
  "getAllAdjectives vm =
     (case allAdjectivesCache vm of
        Some c \<Rightarrow> (c, vm)
      | None \<Rightarrow> (let allAdjectives = rootsOf ''adjectives'' (vocabulary vm)
                 in (allAdjectives, vm\<lparr>allAdjectivesCache := Some allAdjectives\<rparr>)))"

section \<open>String operations\<close>

definition isSpace :: "char \<Rightarrow> bool" where
  \<comment> \<open>the class \<open>\s\<close> and what \<open>trim\<close> removes: tab, LF, VT, FF, CR, space, NBSP\<close>
  "isSpace c = (let n = (of_char c :: nat) in (9 \<le> n \<and> n \<le> 13) \<or> n = 32 \<or> n = 160)"

definition isWordChar :: "char \<Rightarrow> bool" where
  \<comment> \<open>the class \<open>\w\<close>: \<open>[A-Za-z0-9_]\<close>\<close>
  "isWordChar c =
     (let n = (of_char c :: nat)
      in (48 \<le> n \<and> n \<le> 57) \<or> (65 \<le> n \<and> n \<le> 90) \<or> n = 95 \<or> (97 \<le> n \<and> n \<le> 122))"

definition toLowerChar :: "char \<Rightarrow> char" where
  \<comment> \<open>A-Z and the Latin-1 capitals (all of 192..222 but the multiplication sign)\<close>
  "toLowerChar c =
     (let n = (of_char c :: nat)
      in if (65 \<le> n \<and> n \<le> 90) \<or> (192 \<le> n \<and> n \<le> 222 \<and> n \<noteq> 215)
         then char_of (n + 32) else c)"

definition toLowerCase :: "string \<Rightarrow> string" where
  "toLowerCase s = map toLowerChar s"

definition trim :: "string \<Rightarrow> string" where
  "trim s = rev (dropWhile isSpace (rev (dropWhile isSpace s)))"

definition endsWith :: "string \<Rightarrow> string \<Rightarrow> bool" where
  "endsWith w suffix = (length suffix \<le> length w \<and> drop (length w - length suffix) w = suffix)"

definition sliceOff :: "string \<Rightarrow> nat \<Rightarrow> string" where
  \<comment> \<open>\<open>w.slice(0, -n)\<close>\<close>
  "sliceOff w n = take (length w - n) w"

fun includesStr :: "string \<Rightarrow> string \<Rightarrow> bool" where
  "includesStr [] sub = (sub = [])"
| "includesStr (c # cs) sub = (take (length sub) (c # cs) = sub \<or> includesStr cs sub)"

fun splitWs :: "string \<Rightarrow> string list" where
  \<comment> \<open>\<open>s.split(/\s+/)\<close>: the pieces between the maximal runs of white space, the empty
      pieces at both ends included\<close>
  "splitWs [] = [[]]"
| "splitWs (c # cs) =
     (if isSpace c then (if cs \<noteq> [] \<and> isSpace (hd cs) then splitWs cs else [] # splitWs cs)
      else (case splitWs cs of w # ws \<Rightarrow> (c # w) # ws | [] \<Rightarrow> [[c]]))"

definition joinWith :: "string \<Rightarrow> string list \<Rightarrow> string" where
  "joinWith sep xs = (case xs of [] \<Rightarrow> [] | x # rest \<Rightarrow> foldl (\<lambda>acc y. acc @ sep @ y) x rest)"

section \<open>App.checkGrammar\<close>

text \<open>
  The feedback strings, one constructor per template of the source:
  \<^item> \<open>NotRecognized w\<close>: I don't recognize the word 'w'. Are you sure it's correct?
  \<^item> \<open>VerbNotSecond\<close>: Hmm, try to place the verb in the second position of your sentence. ...
  \<^item> \<open>NoVerb\<close>: I can't find a verb in your sentence. A sentence usually needs one!
  \<^item> \<open>InfinitiveUsed v p\<close>: The verb 'v' is in its infinitive form. For this sentence, you
    likely need the present tense form: 'p'.
  \<^item> \<open>WrongConjugation v p\<close>: The verb 'v' might be conjugated incorrectly. The present
    tense form is 'p'.
  \<^item> \<open>NounArticle n a b\<close>: The noun 'n' should typically use 'a', not 'b'.
  \<^item> \<open>NounArticleAfterAdjective n j a b\<close>: The noun 'n' (following adjective 'j') should use
    'a', not 'b'.
  \<^item> \<open>AdjectiveEtForm j f e\<close>: The adjective 'j' (form: 'f') should be its 'et-form' ('e')
    when used with 'et'.
  \<^item> \<open>AdjectiveBaseForm j f r a\<close>: The adjective 'j' (form: 'f') should be its base form
    ('r') when used with 'a'.
  The arguments are the strings the template prints; \<open>null\<close> and \<open>undefined\<close>
  print as these words.
\<close>

datatype diagnostic =
    NotRecognized string
  | VerbNotSecond
  | NoVerb
  | InfinitiveUsed string string
  | WrongConjugation string string
  | NounArticle string string string
  | NounArticleAfterAdjective string string string string
  | AdjectiveEtForm string string string
  | AdjectiveBaseForm string string string string

definition printNull :: "string option \<Rightarrow> string" where
  "printNull v = (case v of Some s \<Rightarrow> s | None \<Rightarrow> ''null'')"

definition printUndefined :: "string option \<Rightarrow> string" where
  "printUndefined v = (case v of Some s \<Rightarrow> s | None \<Rightarrow> ''undefined'')"

text \<open>What \<open>updateMentorText\<close> receives. From \<open>checkGrammar\<close>: "Write a sentence
  first!", the "Fantastisk! ..." message, or "I found a few things to work on: " followed
  by the feedback joined with spaces. From \<open>translateSentence\<close>: "Write a sentence first
  to translate!", or "Translation: " followed by the quoted text.\<close>

datatype mentorText =
    WriteSentenceFirst
  | LooksGood
  | ThingsToWorkOn "diagnostic list"
  | WriteSentenceFirstToTranslate
  | Translation string

record wordInfo =
  word :: string
  rootWord :: "string option"
  category :: string
  originalWordData :: "wordData option"

definition stripFinalPunctuation :: "string \<Rightarrow> string" where
  \<comment> \<open>\<open>word.replace(/[.,?!;]$/, '')\<close>\<close>
  "stripFinalPunctuation w = (if w \<noteq> [] \<and> last w \<in> set ''.,?!;'' then butlast w else w)"

definition grammarWords :: "string \<Rightarrow> string list" where
  "grammarWords sentence = filter (\<lambda>w. length w > 0) (map stripFinalPunctuation (splitWs sentence))"

subsection \<open>Step 1: word recognition and root finding\<close>

definition possibleRoots :: "string \<Rightarrow> string list" where
  "possibleRoots w =
     [w]
     @ (if endsWith w ''er'' \<and> length w > 2 then [sliceOff w 2] else [])
     @ (if endsWith w ''ede'' \<and> length w > 3 then [sliceOff w 3] else [])
     @ (if endsWith w ''te'' \<and> length w > 2 then [sliceOff w 2] else [])
     @ (if endsWith w ''et'' \<and> length w > 2 then [sliceOff w 2] else [])
     @ (if endsWith w ''t'' \<and> length w > 1 then [sliceOff w 1] else [])"

definition unknownInfo :: "string \<Rightarrow> wordInfo" where
  "unknownInfo w = \<lparr>word = w, rootWord = None, category = ''unknown'', originalWordData = None\<rparr>"

definition recognizeWord :: "wordData jsMap \<Rightarrow> string \<Rightarrow> wordInfo option" where
  \<comment> \<open>\<open>None\<close> when \<open>found\<close> stays false\<close>
  "recognizeWord allWordsMap w =
     (if mapHas allWordsMap w
      then (case mapGet allWordsMap w of
              Some d \<Rightarrow> Some \<lparr>word = w,
                              rootWord = Some (if truthy (root d) then the (root d) else w),
                              category = wordData.category d, originalWordData = Some d\<rparr>
            | None \<Rightarrow> None)
      else (case List.find (\<lambda>tempRoot. mapGet allWordsMap tempRoot \<noteq> None) (possibleRoots w) of
              Some tempRoot \<Rightarrow>
                Some \<lparr>word = w, rootWord = Some tempRoot,
                      category = wordData.category (the (mapGet allWordsMap tempRoot)),
                      originalWordData = mapGet allWordsMap tempRoot\<rparr>
            | None \<Rightarrow> None))"

definition wordInfoOf :: "wordData jsMap \<Rightarrow> string \<Rightarrow> wordInfo" where
  \<comment> \<open>what \<open>knownWordsInfo.set(i, ...)\<close> stores for the word at \<open>i\<close>\<close>
  "wordInfoOf allWordsMap w = (case recognizeWord allWordsMap w of Some info \<Rightarrow> info | None \<Rightarrow> unknownInfo w)"

definition unknownWordFeedback :: "wordData jsMap \<Rightarrow> string list \<Rightarrow> diagnostic list" where
  "unknownWordFeedback allWordsMap ws =
     concat (map (\<lambda>w. case recognizeWord allWordsMap w of Some info \<Rightarrow> [] | None \<Rightarrow> [NotRecognized w]) ws)"

subsection \<open>Step 2: the V2 rule\<close>

definition isVerbInfo :: "string set \<Rightarrow> wordInfo \<Rightarrow> bool" where
  "isVerbInfo allVerbsSet info =
     (wordInfo.category info = ''verbs'' \<and>
      (case rootWord info of Some r \<Rightarrow> r \<in> allVerbsSet | None \<Rightarrow> False))"

definition findVerb :: "string set \<Rightarrow> wordInfo list \<Rightarrow> nat option" where
  \<comment> \<open>\<open>Some verbPosition\<close> when \<open>verbFound\<close>\<close>
  "findVerb allVerbsSet infos =
     map_option fst (List.find (\<lambda>(pos, info). isVerbInfo allVerbsSet info) (enumerate 0 infos))"

definition v2Feedback :: "string list \<Rightarrow> nat option \<Rightarrow> diagnostic list" where
  "v2Feedback ws verb =
     (if length ws > 1 \<and> verb \<noteq> None \<and> verb \<noteq> Some 1 then [VerbNotSecond]
      else if verb = None then [NoVerb]
      else [])"

subsection \<open>Step 2.5: the verb conjugation check\<close>

definition wordAt :: "string list \<Rightarrow> nat \<Rightarrow> string option" where
  \<comment> \<open>\<open>words[i]\<close>\<close>
  "wordAt ws i = (if i < length ws then Some (ws ! i) else None)"

definition presentFormFeedback :: "string \<Rightarrow> wordData \<Rightarrow> string option \<Rightarrow> diagnostic list" where
  \<comment> \<open>the body of \<open>if (verbWord !== expectedPresentForm)\<close> with its test\<close>
  "presentFormFeedback verbWord verbRootData expectedPresentForm =
     (if Some verbWord \<noteq> expectedPresentForm
      then (if Some verbWord = root verbRootData
            then [InfinitiveUsed verbWord (printUndefined expectedPresentForm)]
            else [WrongConjugation verbWord (printUndefined expectedPresentForm)])
      else [])"

definition verbDataFeedback :: "string \<Rightarrow> wordData \<Rightarrow> diagnostic list" where
  \<comment> \<open>\<open>if (verbRootData && verbRootData.category === 'verbs' && verbRootData.conjugations)\<close>,
      for a \<open>verbRootData\<close> that is there\<close>
  "verbDataFeedback verbWord verbRootData =
     (if wordData.category verbRootData = ''verbs''
      then (case conjugations verbRootData of
              None \<Rightarrow> []
            | Some cs \<Rightarrow> presentFormFeedback verbWord verbRootData (map_of cs ''present''))
      else [])"

definition conjugationFeedback :: "vocabularyManager \<Rightarrow> string list \<Rightarrow> nat option \<Rightarrow> diagnostic list" where
  \<comment> \<open>The stored info object has the properties \<open>word\<close>, \<open>rootWord\<close>, \<open>category\<close> and
      \<open>originalWordData\<close>, so \<open>verbInfo.root\<close> is \<open>undefined\<close> and
      \<open>verbInfo.root || verbWord\<close> is \<open>verbWord\<close>.\<close>
  "conjugationFeedback vm ws verb =
     (case verb of
        None \<Rightarrow> []
      | Some verbPosition \<Rightarrow>
          (case wordAt ws verbPosition of
             None \<Rightarrow> []
           | Some verbWord \<Rightarrow>
               (case fst (getWordData vm verbWord) of
                  None \<Rightarrow> []
                | Some verbRootData \<Rightarrow> verbDataFeedback verbWord verbRootData)))"

subsection \<open>Step 3: noun and adjective agreement\<close>

definition infoAt :: "wordInfo list \<Rightarrow> nat \<Rightarrow> wordInfo option" where
  \<comment> \<open>\<open>knownWordsInfo.get(i)\<close>\<close>
  "infoAt infos i = (if i < length infos then Some (infos ! i) else None)"

definition rootData :: "vocabularyManager \<Rightarrow> wordInfo \<Rightarrow> wordData option" where
  \<comment> \<open>\<open>getWordData(info.rootWord)\<close>; no key of the map is \<open>null\<close>\<close>
  "rootData vm info = (case rootWord info of Some r \<Rightarrow> fst (getWordData vm r) | None \<Rightarrow> None)"

definition articleNounFeedback :: "string \<Rightarrow> wordData \<Rightarrow> diagnostic \<Rightarrow> diagnostic \<Rightarrow> diagnostic list" where
  \<comment> \<open>the \<open>hasOwnProperty\<close> test of both branches, with the message of each case\<close>
  "articleNounFeedback article nounData useEt useEn =
     (if article = ''en'' \<and> et nounData \<noteq> None then [useEt]
      else if article = ''et'' \<and> en nounData \<noteq> None then [useEn]
      else [])"

definition adjectiveFormFeedback :: "string \<Rightarrow> wordInfo \<Rightarrow> wordData option \<Rightarrow> diagnostic list" where
  "adjectiveFormFeedback article nextWordInfo adjectiveRootData =
     (case adjectiveRootData of
        None \<Rightarrow> []
      | Some a \<Rightarrow>
          if wordData.category a = ''adjectives''
          then (let adj = printNull (rootWord nextWordInfo); form = word nextWordInfo;
                    base = printUndefined (root a)
                in if truthy (et_form a)
                   then (if article = ''et'' \<and> Some form \<noteq> et_form a
                         then [AdjectiveEtForm adj form (the (et_form a))]
                         else if article = ''en'' \<and> Some form \<noteq> root a
                         then [AdjectiveBaseForm adj form base ''en'']
                         else [])
                   else (if article = ''et'' \<and> Some form \<noteq> root a
                         then [AdjectiveBaseForm adj form base ''et'']
                         else if article = ''en'' \<and> Some form \<noteq> root a
                         then [AdjectiveBaseForm adj form base ''en'']
                         else []))
          else [])"

definition directNounFeedback :: "vocabularyManager \<Rightarrow> string \<Rightarrow> wordInfo \<Rightarrow> diagnostic list" where
  \<comment> \<open>the branch for an article with a noun next to it\<close>
  "directNounFeedback vm article nextWordInfo =
     (case rootData vm nextWordInfo of
        None \<Rightarrow> []
      | Some nounData \<Rightarrow>
          (let noun = printNull (rootWord nextWordInfo)
           in articleNounFeedback article nounData
                (NounArticle noun ''et'' ''en'') (NounArticle noun ''en'' ''et'')))"

definition followingNounFeedback :: "vocabularyManager \<Rightarrow> string \<Rightarrow> wordInfo \<Rightarrow> wordInfo \<Rightarrow> diagnostic list" where
  \<comment> \<open>the branch for an article with an adjective next to it, for a
      \<open>followingNounInfo\<close> that is there\<close>
  "followingNounFeedback vm article nextWordInfo followingNounInfo =
     (if wordInfo.category followingNounInfo = ''nouns'' \<and> originalWordData followingNounInfo \<noteq> None
      then (case rootData vm followingNounInfo of
              None \<Rightarrow> []
            | Some nounData \<Rightarrow>
                (let noun = printNull (rootWord followingNounInfo);
                     adj = printNull (rootWord nextWordInfo)
                 in articleNounFeedback article nounData
                      (NounArticleAfterAdjective noun adj ''et'' ''en'')
                      (NounArticleAfterAdjective noun adj ''en'' ''et'')
                    @ adjectiveFormFeedback article nextWordInfo (rootData vm nextWordInfo)))
      else [])"

definition nextWordFeedback :: "vocabularyManager \<Rightarrow> string \<Rightarrow> wordInfo \<Rightarrow> wordInfo option \<Rightarrow> diagnostic list" where
  \<comment> \<open>the two branches on a \<open>nextWordInfo\<close> that is there; \<open>following\<close> is
      \<open>knownWordsInfo.get(i + 2)\<close>\<close>
  "nextWordFeedback vm article nextWordInfo following =
     (if wordInfo.category nextWordInfo = ''nouns'' \<and> originalWordData nextWordInfo \<noteq> None
      then directNounFeedback vm article nextWordInfo
      else if wordInfo.category nextWordInfo = ''adjectives'' \<and> originalWordData nextWordInfo \<noteq> None
      then (case following of
              None \<Rightarrow> []
            | Some followingNounInfo \<Rightarrow> followingNounFeedback vm article nextWordInfo followingNounInfo)
      else [])"

definition wordFeedback :: "vocabularyManager \<Rightarrow> wordInfo list \<Rightarrow> nat \<Rightarrow> wordInfo \<Rightarrow> diagnostic list" where
  \<comment> \<open>the loop body for a \<open>wordInfo\<close> that is there\<close>
  "wordFeedback vm infos i wi =
     (if wordInfo.category wi = ''unknown'' then []
      else if word wi = ''en'' \<or> word wi = ''et''
      then (case infoAt infos (i + 1) of
              None \<Rightarrow> []
            | Some nextWordInfo \<Rightarrow> nextWordFeedback vm (word wi) nextWordInfo (infoAt infos (i + 2)))
      else [])"

definition agreementAt :: "vocabularyManager \<Rightarrow> wordInfo list \<Rightarrow> nat \<Rightarrow> diagnostic list" where
  \<comment> \<open>one pass of the loop body, for the position \<open>i\<close>\<close>
  "agreementAt vm infos i =
     (case infoAt infos i of
        None \<Rightarrow> []
      | Some wi \<Rightarrow> wordFeedback vm infos i wi)"

definition agreementFeedback :: "vocabularyManager \<Rightarrow> wordInfo list \<Rightarrow> diagnostic list" where
  "agreementFeedback vm infos = concat (map (agreementAt vm infos) [0..<length infos])"

subsection \<open>The whole check\<close>

definition grammarFeedback :: "vocabularyManager \<Rightarrow> wordData jsMap \<Rightarrow> string set \<Rightarrow> string list \<Rightarrow> diagnostic list" where
  "grammarFeedback vm allWordsMap allVerbsSet ws =
     (let knownWordsInfo = map (wordInfoOf allWordsMap) ws;
          verb = findVerb allVerbsSet knownWordsInfo
      in unknownWordFeedback allWordsMap ws
         @ v2Feedback ws verb
         @ conjugationFeedback vm ws verb
         @ agreementFeedback vm knownWordsInfo)"

definition finalFeedback :: "diagnostic list \<Rightarrow> mentorText" where
  "finalFeedback feedback = (if length feedback = 0 then LooksGood else ThingsToWorkOn feedback)"

definition checkGrammar :: "vocabularyManager \<Rightarrow> string \<Rightarrow> mentorText \<times> vocabularyManager" where
  \<comment> \<open>\<open>input\<close> is the value of the text area; \<open>getSentence\<close> trims it. The manager that
      the checks read is the one the four getters leave, with its caches filled.\<close>
  "checkGrammar vm input =
     (let sentence = toLowerCase (trim input);
          (allWordsMap, vm1) = getAllWords vm;
          (allVerbsSet, vm2) = getAllVerbs vm1;
          (allNounsSet, vm3) = getAllNouns vm2;
          (allAdjectivesSet, vm4) = getAllAdjectives vm3
      in if sentence = [] \<or> length (trim sentence) = 0 then (WriteSentenceFirst, vm4)
         else (let ws = grammarWords sentence
               in if length ws = 0 then (WriteSentenceFirst, vm4)
                  else (finalFeedback (grammarFeedback vm4 allWordsMap allVerbsSet ws), vm4)))"

section \<open>Regular expressions\<close>

text \<open>
  The patterns of \<open>translateSentenceWords\<close> use literals, \<open>\w+\<close> and \<open>\s+\<close>, \<open>\b\<close>,
  alternation, \<open>?\<close> and capture groups. A matcher takes the state reached so far (the
  end index and the captures) and a continuation for the rest of the pattern, tries its
  alternatives in the order of the pattern (greedy ones longest first) and gives the
  first state the continuation accepts.
\<close>

datatype charClass = WordChars | WhiteSpace

datatype regex =
    Lit string
  | ClassPlus charClass
  | WordBoundary
  | Seq regex regex
  | Alt regex regex
  | Opt regex
  | Group nat regex

type_synonym captures = "(nat \<times> string) list"
type_synonym matchState = "nat \<times> captures"

definition inClass :: "charClass \<Rightarrow> char \<Rightarrow> bool" where
  "inClass cl c = (case cl of WordChars \<Rightarrow> isWordChar c | WhiteSpace \<Rightarrow> isSpace c)"

definition atWordBoundary :: "string \<Rightarrow> nat \<Rightarrow> bool" where
  "atWordBoundary s i =
     ((0 < i \<and> i \<le> length s \<and> isWordChar (s ! (i - 1))) \<noteq> (i < length s \<and> isWordChar (s ! i)))"

fun tryLengths :: "(matchState \<Rightarrow> matchState option) \<Rightarrow> captures \<Rightarrow> nat \<Rightarrow> nat \<Rightarrow> matchState option" where
  \<comment> \<open>a greedy run of at most \<open>n\<close> characters from \<open>i\<close>: the longest first, one at least\<close>
  "tryLengths k caps i 0 = None"
| "tryLengths k caps i (Suc n) =
     (case k (i + Suc n, caps) of Some r \<Rightarrow> Some r | None \<Rightarrow> tryLengths k caps i n)"

primrec matcher :: "regex \<Rightarrow> string \<Rightarrow> (matchState \<Rightarrow> matchState option) \<Rightarrow> matchState \<Rightarrow> matchState option" where
  "matcher (Lit l) s k =
     (\<lambda>(i, caps). if take (length l) (drop i s) = l then k (i + length l, caps) else None)"
| "matcher (ClassPlus cl) s k =
     (\<lambda>(i, caps). tryLengths k caps i (length (takeWhile (inClass cl) (drop i s))))"
| "matcher WordBoundary s k =
     (\<lambda>(i, caps). if atWordBoundary s i then k (i, caps) else None)"
| "matcher (Seq a b) s k = matcher a s (matcher b s k)"
| "matcher (Alt a b) s k =
     (\<lambda>st. case matcher a s k st of Some r \<Rightarrow> Some r | None \<Rightarrow> matcher b s k st)"
| "matcher (Opt a) s k =
     (\<lambda>st. case matcher a s k st of Some r \<Rightarrow> Some r | None \<Rightarrow> k st)"
| "matcher (Group n a) s k =
     (\<lambda>(i, caps). matcher a s (\<lambda>(j, caps'). k (j, (n, take (j - i) (drop i s)) # caps')) (i, caps))"

definition matchAt :: "regex \<Rightarrow> string \<Rightarrow> nat \<Rightarrow> matchState option" where
  "matchAt r s i = matcher r s Some (i, [])"

function searchFrom :: "regex \<Rightarrow> string \<Rightarrow> nat \<Rightarrow> (nat \<times> matchState) option" where
  \<comment> \<open>the leftmost match that starts at \<open>i\<close> or later: its start, its end and its captures\<close>
  "searchFrom r s i =
     (if length s < i then None
      else (case matchAt r s i of Some m \<Rightarrow> Some (i, m) | None \<Rightarrow> searchFrom r s (Suc i)))"
  by pat_completeness auto
termination
  by (relation "measure (\<lambda>(r, s, i). Suc (length s) - i)") auto

declare searchFrom.simps [simp del]

lemma searchFrom_bounds: "searchFrom r s pos = Some (i, m) \<Longrightarrow> pos \<le> i \<and> i \<le> length s"
proof (induction r s pos rule: searchFrom.induct)
  case (1 r s p)
  show ?case
  proof (cases "matchAt r s p")
    case None
    with "1.prems" have le: "\<not> length s < p" and rest: "searchFrom r s (Suc p) = Some (i, m)"
      by (auto simp: searchFrom.simps [of r s p] split: if_splits)
    from "1.IH" [OF le None rest] show ?thesis by simp
  next
    case (Some a)
    with "1.prems" show ?thesis
      by (auto simp: searchFrom.simps [of r s p] split: if_splits)
  qed
qed

definition group :: "captures \<Rightarrow> nat \<Rightarrow> string" where
  \<comment> \<open>the text of a group of the finished match (every group of the patterns below takes
      part in every match)\<close>
  "group caps n = (case map_of caps n of Some g \<Rightarrow> g | None \<Rightarrow> [])"

function replaceFrom :: "regex \<Rightarrow> (string \<Rightarrow> captures \<Rightarrow> string) \<Rightarrow> string \<Rightarrow> nat \<Rightarrow> string" where
  \<comment> \<open>\<open>replace\<close> with a global pattern, from \<open>pos\<close> on: after an empty match the search
      moves one character on\<close>
  "replaceFrom r f s pos =
     (case searchFrom r s pos of
        None \<Rightarrow> drop pos s
      | Some (i, e, caps) \<Rightarrow>
          take (i - pos) (drop pos s) @ f (take (e - i) (drop i s)) caps
          @ (if i < e then replaceFrom r f s e
             else if i < length s then s ! i # replaceFrom r f s (Suc i)
             else []))"
  by pat_completeness auto
termination
proof (relation "measure (\<lambda>(r, f, s, pos). Suc (length s) - pos)", goal_cases)
  case 1
  show ?case by simp
next
  case (2 r f s pos x2 x y xa ya)
  with searchFrom_bounds [of r s pos x "(xa, ya)"] show ?case by auto
next
  case (3 r f s pos x2 x y xa ya)
  with searchFrom_bounds [of r s pos x "(xa, ya)"] show ?case by auto
qed

declare replaceFrom.simps [simp del]

definition replaceAll :: "regex \<Rightarrow> (string \<Rightarrow> captures \<Rightarrow> string) \<Rightarrow> string \<Rightarrow> string" where
  "replaceAll r f s = replaceFrom r f s 0"

definition replaceFirst :: "regex \<Rightarrow> (string \<Rightarrow> captures \<Rightarrow> string) \<Rightarrow> string \<Rightarrow> string" where
  \<comment> \<open>\<open>replace\<close> with a pattern that has no \<open>g\<close> flag\<close>
  "replaceFirst r f s =
     (case searchFrom r s 0 of
        None \<Rightarrow> s
      | Some (i, e, caps) \<Rightarrow> take i s @ f (take (e - i) (drop i s)) caps @ drop e s)"

fun seqs :: "regex list \<Rightarrow> regex" where
  "seqs [] = Lit []"
| "seqs [r] = r"
| "seqs (r # rs) = Seq r (seqs rs)"

fun alts :: "regex list \<Rightarrow> regex" where
  "alts [] = Lit []"
| "alts [r] = r"
| "alts (r # rs) = Alt r (alts rs)"

section \<open>App.translateSentenceWords\<close>

subsection \<open>The word-by-word translation\<close>

definition exampleMatches :: "string \<Rightarrow> wordData \<Rightarrow> bool" where
  "exampleMatches sentence wd =
     (truthy (example wd) \<and> toLowerCase (the (example wd)) = toLowerCase sentence)"

definition translationWords :: "string \<Rightarrow> string list" where
  \<comment> \<open>\<open>sentence.toLowerCase().replace(/[.,?!;]/g, '').split(/\s+/).filter(...)\<close>\<close>
  "translationWords sentence =
     filter (\<lambda>w. length w > 0)
       (splitWs (filter (\<lambda>c. c \<notin> set ''.,?!;'') (toLowerCase sentence)))"

fun firstSome :: "('a \<Rightarrow> 'b option) \<Rightarrow> 'a list \<Rightarrow> 'b option" where
  \<comment> \<open>a loop that is left at the first hit\<close>
  "firstSome f [] = None"
| "firstSome f (x # xs) = (case f x of Some y \<Rightarrow> Some y | None \<Rightarrow> firstSome f xs)"

definition scanEntry :: "string \<Rightarrow> string \<Rightarrow> entry \<Rightarrow> string option option" where
  \<comment> \<open>what one entry pushes, if it sets \<open>rootFound\<close>\<close>
  "scanEntry cat w d =
     (if cat = ''verbs'' \<and> conjugations d \<noteq> None \<and> w \<in> snd ` set (the (conjugations d))
      then Some (en d)
      else if cat = ''adjectives'' \<and> et_form d = Some w then Some (en d)
      else None)"

definition scanVocabulary :: "vocabulary \<Rightarrow> string \<Rightarrow> string option option" where
  "scanVocabulary v w =
     firstSome (\<lambda>lc. firstSome (\<lambda>cw. firstSome (\<lambda>we. scanEntry (fst cw) w (snd we)) (snd cw)) (snd lc)) v"

definition translateWord :: "vocabulary \<Rightarrow> wordData jsMap \<Rightarrow> string \<Rightarrow> string option" where
  \<comment> \<open>what is pushed on \<open>translatedWords\<close> for one word\<close>
  "translateWord v allWords w =
     (case mapGet allWords w of
        Some wd \<Rightarrow>
          if wordData.category wd = ''verbs'' then jsOr (baseEn wd) (en wd)
          else if wordData.category wd = ''nouns'' then jsOr (en wd) (et wd)
          else if wordData.category wd = ''adjectives'' then jsOr (baseEn wd) (en wd)
          else jsOr (jsOr (en wd) (et wd)) (Some w)
      | None \<Rightarrow>
          (case scanVocabulary v w of
             Some t \<Rightarrow> t
           | None \<Rightarrow> Some w))"

definition joinElement :: "string option \<Rightarrow> string" where
  \<comment> \<open>\<open>join\<close> prints an \<open>undefined\<close> element as the empty string\<close>
  "joinElement v = (case v of Some s \<Rightarrow> s | None \<Rightarrow> [])"

subsection \<open>The final pass over the joined translation\<close>

definition verbGlosses :: "string list" where
  "verbGlosses =
     [''eat'', ''read'', ''see'', ''have'', ''be'', ''call'', ''come'', ''live'', ''can'',
      ''will'', ''must'', ''may'', ''know'', ''take'', ''give'', ''find'', ''speak'',
      ''understand'', ''love'', ''drive'', ''work'', ''visit'', ''make'', ''buy'',
      ''think/find'', ''help'', ''sell'', ''ask'', ''answer'', ''study'', ''develop'',
      ''discuss'', ''explain'', ''suggest'', ''decide'', ''analyze'', ''argue'',
      ''contribute'', ''consider'', ''criticize'', ''conclude'', ''abstract'', ''articulate'',
      ''legitimize'', ''synthesize'', ''decipher'', ''internalize'', ''proliferate'',
      ''illuminate'', ''evaluate'', ''imply'', ''reflect'', ''specify'', ''emphasize'']"

definition commonSubjects :: "string list" where
  "commonSubjects =
     [''jeg'', ''du'', ''han'', ''hun'', ''vi'', ''de'', ''pigen'', ''drengen'', ''huset'', ''bilen'']"

definition toInfinitivePattern :: regex where
  \<comment> \<open>\<open>/(\b\w+\b) to (eat|read|...)\b/g\<close>\<close>
  "toInfinitivePattern =
     seqs [Group 1 (seqs [WordBoundary, ClassPlus WordChars, WordBoundary]), Lit '' to '',
           Group 2 (alts (map Lit verbGlosses)), WordBoundary]"

definition toInfinitiveReplacement :: "string \<Rightarrow> captures \<Rightarrow> string" where
  "toInfinitiveReplacement match caps =
     (let p1 = group caps 1; p2 = group caps 2
      in if \<not> includesStr (toLowerCase p1) ''to'' \<and> toLowerCase p1 \<in> set commonSubjects
         then p1 @ '' '' @ p2 @ ''s''
         else match)"

definition presentPattern :: regex where
  \<comment> \<open>\<open>/(\b(eat|read|...))s?\b/g\<close>\<close>
  "presentPattern =
     seqs [Group 1 (seqs [WordBoundary, Group 2 (alts (map Lit verbGlosses))]),
           Opt (Lit ''s''), WordBoundary]"

definition presentReplacement :: "string \<Rightarrow> captures \<Rightarrow> string" where
  "presentReplacement match caps =
     (let p2 = group caps 2
      in if p2 = ''be'' then ''is''
         else if p2 = ''can'' \<or> p2 = ''will'' \<or> p2 = ''must'' \<or> p2 = ''may'' then match
         else ''is '' @ p2 @ ''ing'')"

definition theArticlePattern :: regex where
  \<comment> \<open>\<open>/ the (an?)\b/g\<close>\<close>
  "theArticlePattern = seqs [Lit '' the '', Group 1 (seqs [Lit ''a'', Opt (Lit ''n'')]), WordBoundary]"

definition doubleArticlePattern :: regex where
  \<comment> \<open>\<open>/ an? (an?)\b/g\<close>\<close>
  "doubleArticlePattern =
     seqs [Lit '' a'', Opt (Lit ''n''), Lit '' '', Group 1 (seqs [Lit ''a'', Opt (Lit ''n'')]),
           WordBoundary]"

definition aAnPattern :: regex where
  \<comment> \<open>\<open>/\s+a\s+an\s+/\<close>\<close>
  "aAnPattern =
     seqs [ClassPlus WhiteSpace, Lit ''a'', ClassPlus WhiteSpace, Lit ''an'', ClassPlus WhiteSpace]"

definition anAPattern :: regex where
  \<comment> \<open>\<open>/\s+an\s+a\s+/\<close>\<close>
  "anAPattern =
     seqs [ClassPlus WhiteSpace, Lit ''an'', ClassPlus WhiteSpace, Lit ''a'', ClassPlus WhiteSpace]"

definition phraseRepair :: "string \<Rightarrow> string" where
  "phraseRepair joined =
     (let t1 = replaceAll toInfinitivePattern toInfinitiveReplacement joined;
          t2 = replaceAll presentPattern presentReplacement t1;
          t3 = replaceAll theArticlePattern (\<lambda>match caps. '' the '') t2;
          t4 = replaceAll doubleArticlePattern (\<lambda>match caps. '' '' @ group caps 1) t3;
          t5 = replaceFirst aAnPattern (\<lambda>match caps. '' a '') t4
      in replaceFirst anAPattern (\<lambda>match caps. '' an '') t5)"

subsection \<open>translateSentenceWords and translateSentence\<close>

definition translateSentenceWords :: "vocabularyManager \<Rightarrow> string \<Rightarrow> string option \<times> vocabularyManager" where
  \<comment> \<open>\<open>None\<close> is the \<open>undefined\<close> that a matched entry without \<open>translated\<close> gives\<close>
  "translateSentenceWords vm sentence =
     (let (allWords, vm') = getAllWords vm
      in case List.find (exampleMatches sentence) (mapValues allWords) of
           Some wd \<Rightarrow> (translated wd, vm')
         | None \<Rightarrow>
             (let ws = translationWords sentence;
                  translatedWords = map (translateWord (vocabulary vm') allWords) ws
              in (Some (phraseRepair (joinWith '' '' (map joinElement translatedWords))), vm')))"

definition translateSentence :: "vocabularyManager \<Rightarrow> string \<Rightarrow> mentorText \<times> vocabularyManager" where
  "translateSentence vm input =
     (let sentence = toLowerCase (trim input)
      in if length sentence = 0 then (WriteSentenceFirstToTranslate, vm)
         else (let (translatedText, vm') = translateSentenceWords vm sentence
               in (Translation (printUndefined translatedText), vm')))"

section \<open>Reading the results\<close>

definition cachesFilled :: "vocabularyManager \<Rightarrow> vocabularyManager" where
  \<comment> \<open>the manager after the four getters that \<open>checkGrammar\<close> calls first\<close>
  "cachesFilled vm =
     snd (getAllAdjectives (snd (getAllNouns (snd (getAllVerbs (snd (getAllWords vm)))))))"

definition diagnosticsOf :: "mentorText \<Rightarrow> diagnostic list" where
  \<comment> \<open>the feedback list behind a mentor text\<close>
  "diagnosticsOf t = (case t of ThingsToWorkOn feedback \<Rightarrow> feedback | _ \<Rightarrow> [])"

datatype diagnosticKind = UnknownWord | VerbPosition | Conjugation | Agreement

definition kindOf :: "diagnostic \<Rightarrow> diagnosticKind" where
  \<comment> \<open>the check a feedback string comes from\<close>
  "kindOf d =
     (case d of
        NotRecognized w \<Rightarrow> UnknownWord
      | VerbNotSecond \<Rightarrow> VerbPosition
      | NoVerb \<Rightarrow> VerbPosition
      | InfinitiveUsed v p \<Rightarrow> Conjugation
      | WrongConjugation v p \<Rightarrow> Conjugation
      | NounArticle n a b \<Rightarrow> Agreement
      | NounArticleAfterAdjective n j a b \<Rightarrow> Agreement
      | AdjectiveEtForm j f e \<Rightarrow> Agreement
      | AdjectiveBaseForm j f r a \<Rightarrow> Agreement)"

definition isGenderMismatch :: "diagnostic \<Rightarrow> bool" where
  \<comment> \<open>the article does not fit the noun\<close>
  "isGenderMismatch d =
     (case d of NounArticle n a b \<Rightarrow> True | NounArticleAfterAdjective n j a b \<Rightarrow> True | _ \<Rightarrow> False)"



section \<open>Token resolution in the words of the specification\<close>

text \<open>
  The specification lists four suffix rules, in this order: a 2-character agent or
  present suffix (\<open>er\<close>), a 3-character weak past suffix (\<open>ede\<close>), a 2-character weak
  past or definite suffix (\<open>te\<close>, \<open>et\<close>) and a 1-character neuter suffix (\<open>t\<close>). A rule
  gives its candidate only when the stripped form is not empty; the first candidate that
  is in the index wins, and a token with none is unknown, with no root. These definitions
  follow that wording and are compared with \<open>recognizeWord\<close> below.
\<close>

definition specSuffixRules :: "(string list \<times> nat) list" where
  "specSuffixRules = [([''er''], 2), ([''ede''], 3), ([''te'', ''et''], 2), ([''t''], 1)]"

definition specCandidate :: "string \<Rightarrow> string list \<times> nat \<Rightarrow> string list" where
  "specCandidate w rule =
     (if list_ex (endsWith w) (fst rule) \<and> sliceOff w (snd rule) \<noteq> []
      then [sliceOff w (snd rule)] else [])"

definition specCandidates :: "string \<Rightarrow> string list" where
  "specCandidates w = concat (map (specCandidate w) specSuffixRules)"

definition specResolve :: "wordData jsMap \<Rightarrow> string \<Rightarrow> string option \<times> string" where
  \<comment> \<open>the root and the category of a token\<close>
  "specResolve allForms w =
     (case mapGet allForms w of
        Some d \<Rightarrow> (Some (if truthy (root d) then the (root d) else w), wordData.category d)
      | None \<Rightarrow>
          (case List.find (mapHas allForms) (specCandidates w) of
             Some c \<Rightarrow> (Some c, wordData.category (the (mapGet allForms c)))
           | None \<Rightarrow> (None, ''unknown'')))"

section \<open>Example datasets\<close>

definition emptyEntry :: entry where
  "emptyEntry = \<lparr>en = None, et = None, example = None, translated = None,
                  conjugations = None, et_form = None\<rparr>"

definition etFormClashVocabulary :: vocabulary where
  \<comment> \<open>the adverb \<open>godt\<close> is a root of its own and the \<open>et\<close> form of the adjective \<open>god\<close>\<close>
  "etFormClashVocabulary =
     [(''A1'',
        [(''other'', [(''godt'', emptyEntry\<lparr>en := Some ''well''\<rparr>)]),
         (''adjectives'', [(''god'', emptyEntry\<lparr>en := Some ''good'', et_form := Some ''godt''\<rparr>)])])]"

definition spiseVocabulary :: vocabulary where
  "spiseVocabulary =
     [(''A1'',
        [(''verbs'', [(''spise'', emptyEntry\<lparr>en := Some ''to eat'',
                         conjugations := Some [(''present'', ''spiser''), (''past'', ''spiste'')]\<rparr>)]),
         (''other'', [(''jeg'', emptyEntry\<lparr>en := Some ''I''\<rparr>)])])]"

definition articleVocabulary :: vocabulary where
  \<comment> \<open>a neuter noun, a common noun and the two articles\<close>
  "articleVocabulary =
     [(''A1'',
        [(''nouns'', [(''hus'', emptyEntry\<lparr>et := Some ''a house''\<rparr>),
                      (''bil'', emptyEntry\<lparr>en := Some ''a car''\<rparr>)]),
         (''other'', [(''en'', emptyEntry\<lparr>en := Some ''a''\<rparr>),
                      (''et'', emptyEntry\<lparr>en := Some ''a''\<rparr>)])])]"

definition nounOnlyVocabulary :: vocabulary where
  \<comment> \<open>a neuter noun and no article\<close>
  "nounOnlyVocabulary = [(''A1'', [(''nouns'', [(''hus'', emptyEntry\<lparr>et := Some ''a house''\<rparr>)])])]"

definition hundEntry :: entry where
  "hundEntry = emptyEntry\<lparr>en := Some ''a dog'', example := Some ''Hunden'', translated := Some ''The dog''\<rparr>"

definition twoLevelVocabulary :: vocabulary where
  \<comment> \<open>the same root at two levels; the entry of the first level has the example\<close>
  "twoLevelVocabulary =
     [(''A1'', [(''nouns'', [(''hund'', hundEntry)])]),
      (''B1'', [(''nouns'', [(''hund'', emptyEntry\<lparr>en := Some ''a dog''\<rparr>)])])]"

definition exampleVocabulary :: vocabulary where
  "exampleVocabulary =
     [(''A1'',
        [(''verbs'', [(''spise'', emptyEntry\<lparr>en := Some ''to eat'', example := Some ''Jeg spiser.'',
                         translated := Some ''I am eating.'',
                         conjugations := Some [(''present'', ''spiser'')]\<rparr>)])])]"

section \<open>Properties of the index\<close>

lemma map_of_mapSet: "map_of (mapSet k v m) = (map_of m)(k \<mapsto> v)"
  by (induction m) (auto simp: fun_eq_iff)

lemma mapGet_mapSet: "mapGet (mapSet k v m) k' = (if k' = k then Some v else mapGet m k')"
  by (simp add: mapGet_def map_of_mapSet)

lemma mapHas_mapSet: "mapHas (mapSet k v m) k' = (k' = k \<or> mapHas m k')"
  by (simp add: mapHas_def map_of_mapSet)

text \<open>The insertion of a verb's conjugated forms leaves every key that is present as it
  is: this is what the test \<open>!allWords.has(conjugatedForm)\<close> is for.\<close>

lemma addConjugation_keeps_present:
  "mapHas m k \<Longrightarrow> mapHas (addConjugation w lv wd m tf) k \<and> mapGet (addConjugation w lv wd m tf) k = mapGet m k"
  by (auto simp: addConjugation_def Let_def mapGet_mapSet mapHas_mapSet)

lemma addConjugations_keep_present:
  "mapHas m k \<Longrightarrow> mapGet (foldl (addConjugation w lv wd) m cs) k = mapGet m k"
proof (induction cs arbitrary: m)
  case Nil
  show ?case by simp
next
  case (Cons tf cs)
  from addConjugation_keeps_present [OF Cons.prems, of w lv wd tf]
  have "mapHas (addConjugation w lv wd m tf) k"
    and same: "mapGet (addConjugation w lv wd m tf) k = mapGet m k"
    by simp_all
  from Cons.IH [OF this(1)] same show ?case by simp
qed

text \<open>
  C1. After the build, the record under a root key should be that root's own entry, and no
  derived-form insertion should replace a key that is already present. The insertion of
  a verb's conjugated form tests \<open>allWords.has\<close> first; the insertion of an adjective's
  \<open>et\<close> form does not. In the dataset \<open>etFormClashVocabulary\<close> the root \<open>godt\<close> is
  inserted first, and the \<open>et\<close> form of \<open>god\<close> replaces it: the record under the root
  key \<open>godt\<close> is the derived record that points at \<open>god\<close>.
\<close>

theorem getAllWords_et_form_replaces_root:
  "map_of (the (map_of (the (map_of etFormClashVocabulary ''A1'')) ''other'')) ''godt''
     = Some (emptyEntry\<lparr>en := Some ''well''\<rparr>)
   \<and> mapGet (fst (getAllWords (newVocabularyManager etFormClashVocabulary))) ''godt''
     = Some \<lparr>en = None, et = None, example = None, translated = None,
              conjugations = None, et_form = Some ''godt'',
              wordData.category = ''adjectives'', level = ''A1'', root = Some ''god'',
              conjugatedForm = None, baseEn = Some ''good''\<rparr>"
  by (simp add: getAllWords_def newVocabularyManager_def buildAllWords_def
      etFormClashVocabulary_def emptyEntry_def addWord_def rootRecord_def etFormRecord_def
      truthy_def mapGet_def Let_def)

section \<open>The caches and the shape of a check\<close>

lemma getAllWords_cache: "allWordsCache (snd (getAllWords vm)) = Some (fst (getAllWords vm))"
  by (simp add: getAllWords_def Let_def split: option.splits)

lemma getAllWords_again: "getAllWords (snd (getAllWords vm)) = (fst (getAllWords vm), snd (getAllWords vm))"
  by (simp add: getAllWords_def Let_def split: option.splits)

lemma getAllWords_cached: "allWordsCache vm = Some c \<Longrightarrow> getAllWords vm = (c, vm)"
  by (simp add: getAllWords_def)

lemma getWordData_cached: "allWordsCache vm = Some c \<Longrightarrow> getWordData vm w = (mapGet c w, vm)"
  by (simp add: getWordData_def getAllWords_cached)

lemma getAllVerbs_allWordsCache: "allWordsCache (snd (getAllVerbs vm)) = allWordsCache vm"
  by (simp add: getAllVerbs_def Let_def split: option.splits)

lemma getAllNouns_allWordsCache: "allWordsCache (snd (getAllNouns vm)) = allWordsCache vm"
  by (simp add: getAllNouns_def Let_def split: option.splits)

lemma getAllAdjectives_allWordsCache: "allWordsCache (snd (getAllAdjectives vm)) = allWordsCache vm"
  by (simp add: getAllAdjectives_def Let_def split: option.splits)

lemma cachesFilled_allWordsCache: "allWordsCache (cachesFilled vm) = Some (fst (getAllWords vm))"
  by (simp add: cachesFilled_def getAllAdjectives_allWordsCache getAllNouns_allWordsCache
      getAllVerbs_allWordsCache getAllWords_cache)

lemma getWordData_cachesFilled: "fst (getWordData (cachesFilled vm) w) = mapGet (fst (getAllWords vm)) w"
  by (simp add: getWordData_cached [OF cachesFilled_allWordsCache])

lemma getAllVerbs_after_getAllWords: "fst (getAllVerbs (snd (getAllWords vm))) = fst (getAllVerbs vm)"
  by (simp add: getAllVerbs_def getAllWords_def Let_def split: option.splits)

lemma checkGrammar_fst:
  "fst (checkGrammar vm input) =
     (let sentence = toLowerCase (trim input); ws = grammarWords sentence
      in if sentence = [] \<or> trim sentence = [] \<or> ws = [] then WriteSentenceFirst
         else finalFeedback (grammarFeedback (cachesFilled vm) (fst (getAllWords vm)) (fst (getAllVerbs vm)) ws))"
  by (simp add: checkGrammar_def cachesFilled_def Let_def split_beta getAllVerbs_after_getAllWords)

lemma checkGrammar_snd: "snd (checkGrammar vm input) = cachesFilled vm"
  by (simp add: checkGrammar_def cachesFilled_def Let_def split_beta)

lemma diagnosticsOf_finalFeedback: "diagnosticsOf (finalFeedback fb) = fb"
  by (simp add: diagnosticsOf_def finalFeedback_def)

lemma splitWs_spaces: "\<forall>c\<in>set s. isSpace c \<Longrightarrow> set (splitWs s) \<subseteq> {[]}"
  by (induction s) auto

lemma all_dropWhile: "(\<forall>x\<in>set (dropWhile P xs). P x) \<longleftrightarrow> (\<forall>x\<in>set xs. P x)"
  by (induction xs) auto

lemma trim_Nil_iff: "trim s = [] \<longleftrightarrow> (\<forall>c\<in>set s. isSpace c)"
  by (simp add: trim_def dropWhile_eq_Nil_conv all_dropWhile)

lemma grammarWords_Nil: "grammarWords [] = []"
  by (simp add: grammarWords_def stripFinalPunctuation_def)

lemma grammarWords_trim_Nil: "trim s = [] \<Longrightarrow> grammarWords s = []"
proof -
  assume "trim s = []"
  then have "set (splitWs s) \<subseteq> {[]}" by (simp add: trim_Nil_iff splitWs_spaces)
  then show ?thesis
    by (auto simp: grammarWords_def filter_empty_conv stripFinalPunctuation_def)
qed

lemma checkGrammar_analysed:
  assumes "grammarWords (toLowerCase (trim input)) = ws" "ws \<noteq> []"
  shows "diagnosticsOf (fst (checkGrammar vm input)) =
         grammarFeedback (cachesFilled vm) (fst (getAllWords vm)) (fst (getAllVerbs vm)) ws"
proof -
  from assms have ne: "grammarWords (toLowerCase (trim input)) \<noteq> []" by simp
  then have "trim (toLowerCase (trim input)) \<noteq> []" "toLowerCase (trim input) \<noteq> []"
    using grammarWords_trim_Nil [of "toLowerCase (trim input)"] grammarWords_Nil by auto
  with assms show ?thesis
    by (simp add: checkGrammar_fst diagnosticsOf_finalFeedback)
qed

section \<open>The kind of feedback each check gives\<close>

lemma list_all_concat_map: "(\<And>x. list_all P (f x)) \<Longrightarrow> list_all P (concat (map f xs))"
  by (induction xs) simp_all

lemma kindOf_simps [simp]:
  "kindOf (NotRecognized w) = UnknownWord"
  "kindOf VerbNotSecond = VerbPosition"
  "kindOf NoVerb = VerbPosition"
  "kindOf (InfinitiveUsed v p) = Conjugation"
  "kindOf (WrongConjugation v p) = Conjugation"
  "kindOf (NounArticle n a b) = Agreement"
  "kindOf (NounArticleAfterAdjective n j a b) = Agreement"
  "kindOf (AdjectiveEtForm j f e) = Agreement"
  "kindOf (AdjectiveBaseForm j f r a) = Agreement"
  by (simp_all add: kindOf_def)

lemma kindOf_unknownWordFeedback: "list_all (\<lambda>d. kindOf d = UnknownWord) (unknownWordFeedback aw ws)"
  unfolding unknownWordFeedback_def
  by (rule list_all_concat_map) (simp split: option.split)

lemma kindOf_v2Feedback: "list_all (\<lambda>d. kindOf d = VerbPosition) (v2Feedback ws verb)"
  by (simp add: v2Feedback_def)

lemma kindOf_presentFormFeedback: "list_all (\<lambda>d. kindOf d = Conjugation) (presentFormFeedback w vd e)"
  by (simp add: presentFormFeedback_def)

lemma kindOf_verbDataFeedback: "list_all (\<lambda>d. kindOf d = Conjugation) (verbDataFeedback w vd)"
  by (simp add: verbDataFeedback_def kindOf_presentFormFeedback split: option.split)

lemma kindOf_conjugationFeedback: "list_all (\<lambda>d. kindOf d = Conjugation) (conjugationFeedback vm ws verb)"
  by (simp add: conjugationFeedback_def kindOf_verbDataFeedback split: option.split)

lemma kindOf_articleNounFeedback:
  "kindOf a = Agreement \<Longrightarrow> kindOf b = Agreement
   \<Longrightarrow> list_all (\<lambda>d. kindOf d = Agreement) (articleNounFeedback art nd a b)"
  by (simp add: articleNounFeedback_def)

lemma kindOf_adjectiveFormFeedback: "list_all (\<lambda>d. kindOf d = Agreement) (adjectiveFormFeedback art ni ad)"
  by (simp add: adjectiveFormFeedback_def Let_def split: option.split)

lemma kindOf_directNounFeedback: "list_all (\<lambda>d. kindOf d = Agreement) (directNounFeedback vm art ni)"
  by (simp add: directNounFeedback_def Let_def kindOf_articleNounFeedback split: option.split)

lemma kindOf_followingNounFeedback: "list_all (\<lambda>d. kindOf d = Agreement) (followingNounFeedback vm art ni fo)"
  by (simp add: followingNounFeedback_def Let_def kindOf_articleNounFeedback
      kindOf_adjectiveFormFeedback split: option.split)

lemma kindOf_nextWordFeedback: "list_all (\<lambda>d. kindOf d = Agreement) (nextWordFeedback vm art ni fo)"
  by (simp add: nextWordFeedback_def kindOf_directNounFeedback kindOf_followingNounFeedback
      split: option.split)

lemma kindOf_wordFeedback: "list_all (\<lambda>d. kindOf d = Agreement) (wordFeedback vm infos i wi)"
  by (simp add: wordFeedback_def kindOf_nextWordFeedback split: option.split)

lemma kindOf_agreementAt: "list_all (\<lambda>d. kindOf d = Agreement) (agreementAt vm infos i)"
  by (simp add: agreementAt_def kindOf_wordFeedback split: option.split)

lemma kindOf_agreementFeedback: "list_all (\<lambda>d. kindOf d = Agreement) (agreementFeedback vm infos)"
  unfolding agreementFeedback_def by (rule list_all_concat_map) (rule kindOf_agreementAt)

lemma findVerb_Some:
  "findVerb vs infos = Some p \<Longrightarrow>
     p < length infos \<and> isVerbInfo vs (infos ! p) \<and> (\<forall>q<p. \<not> isVerbInfo vs (infos ! q))"
  by (auto simp: findVerb_def find_Some_iff nth_enumerate_eq)

lemma findVerb_None: "findVerb vs infos = None \<longleftrightarrow> (\<forall>q<length infos. \<not> isVerbInfo vs (infos ! q))"
proof -
  have "findVerb vs infos = None \<longleftrightarrow> (\<forall>x\<in>set (enumerate 0 infos). \<not> isVerbInfo vs (snd x))"
    by (auto simp: findVerb_def find_None_iff)
  also have "\<dots> \<longleftrightarrow> (\<forall>y\<in>set infos. \<not> isVerbInfo vs y)"
    by (metis enumerate_eq_zip in_set_zipE in_set_enumerate_eq snd_conv in_set_conv_nth
        length_enumerate nth_enumerate_eq prod.collapse add_0 diff_zero)
  also have "\<dots> \<longleftrightarrow> (\<forall>q<length infos. \<not> isVerbInfo vs (infos ! q))"
    by (metis in_set_conv_nth)
  finally show ?thesis .
qed

lemma count_list_other_kind: "list_all (\<lambda>d. kindOf d = k) xs \<Longrightarrow> kindOf x \<noteq> k \<Longrightarrow> count_list xs x = 0"
  by (induction xs) auto

section \<open>The claims about the grammar check\<close>

text \<open>
  C8. For an input that is empty after trimming, or whose words are all empty once the
  final punctuation is stripped, the check gives the one message "Write a sentence first!"
  and nothing else: no feedback list is built at all.
\<close>

theorem checkGrammar_empty_sentence:
  "trim input = [] \<or> grammarWords (toLowerCase (trim input)) = []
   \<Longrightarrow> fst (checkGrammar vm input) = WriteSentenceFirst"
  by (auto simp: checkGrammar_fst toLowerCase_def Let_def)

theorem checkGrammar_empty_sentence_witness:
  "(trim ''  .  '' = [] \<or> grammarWords (toLowerCase (trim ''  .  '')) = [])
   \<and> fst (checkGrammar (newVocabularyManager etFormClashVocabulary) ''  .  '') = WriteSentenceFirst"
proof -
  have h: "trim ''  .  '' = [] \<or> grammarWords (toLowerCase (trim ''  .  '')) = []"
    by code_simp
  from checkGrammar_empty_sentence [OF h] h show ?thesis by blast
qed

text \<open>
  C4. For an analysed sentence (one with a word in it), the verb of the V2 check is the
  first word of category \<open>verbs\<close> whose root is in the set of verb roots; there is none
  exactly if no word is such a word. The feedback holds "place the verb in the second
  position" once if the sentence has more than one word and the verb is found at a
  position other than 1, and not at all otherwise; it holds "I can't find a verb" once if no
  verb is found, and not at all otherwise. So the two never come together.
\<close>

theorem checkGrammar_v2_check:
  assumes ws: "grammarWords (toLowerCase (trim input)) = ws" "ws \<noteq> []"
    and infos: "infos = map (wordInfoOf (fst (getAllWords vm))) ws"
    and verb: "verb = findVerb (fst (getAllVerbs vm)) infos"
    and fb: "fb = diagnosticsOf (fst (checkGrammar vm input))"
  shows "(\<forall>p. verb = Some p \<longrightarrow>
            p < length ws \<and> isVerbInfo (fst (getAllVerbs vm)) (infos ! p)
            \<and> (\<forall>q<p. \<not> isVerbInfo (fst (getAllVerbs vm)) (infos ! q)))
       \<and> (verb = None \<longleftrightarrow> (\<forall>q<length ws. \<not> isVerbInfo (fst (getAllVerbs vm)) (infos ! q)))
       \<and> count_list fb VerbNotSecond = (if 1 < length ws \<and> verb \<noteq> None \<and> verb \<noteq> Some 1 then 1 else 0)
       \<and> count_list fb NoVerb = (if verb = None then 1 else 0)"
proof -
  let ?vs = "fst (getAllVerbs vm)"
  have len: "length infos = length ws" by (simp add: infos)
  have first: "\<forall>p. verb = Some p \<longrightarrow>
            p < length ws \<and> isVerbInfo ?vs (infos ! p) \<and> (\<forall>q<p. \<not> isVerbInfo ?vs (infos ! q))"
    using findVerb_Some [of ?vs infos] len by (auto simp: verb)
  have none: "verb = None \<longleftrightarrow> (\<forall>q<length ws. \<not> isVerbInfo ?vs (infos ! q))"
    using findVerb_None [of ?vs infos] len by (simp add: verb)
  have fb_eq: "fb = unknownWordFeedback (fst (getAllWords vm)) ws @ v2Feedback ws verb
                    @ conjugationFeedback (cachesFilled vm) ws verb
                    @ agreementFeedback (cachesFilled vm) infos"
    by (simp add: fb checkGrammar_analysed [OF ws] grammarFeedback_def Let_def infos verb)
  have other: "count_list (unknownWordFeedback (fst (getAllWords vm)) ws) x = 0"
      "count_list (conjugationFeedback (cachesFilled vm) ws verb) x = 0"
      "count_list (agreementFeedback (cachesFilled vm) infos) x = 0"
    if "kindOf x = VerbPosition" for x
    using that count_list_other_kind [OF kindOf_unknownWordFeedback, of x]
      count_list_other_kind [OF kindOf_conjugationFeedback, of x]
      count_list_other_kind [OF kindOf_agreementFeedback, of x]
    by simp_all
  have k: "kindOf VerbNotSecond = VerbPosition" "kindOf NoVerb = VerbPosition"
    by simp_all
  have c1: "count_list fb VerbNotSecond = (if 1 < length ws \<and> verb \<noteq> None \<and> verb \<noteq> Some 1 then 1 else 0)"
    by (simp add: fb_eq other [OF k(1)] v2Feedback_def)
  have c2: "count_list fb NoVerb = (if verb = None then 1 else 0)"
    by (simp add: fb_eq other [OF k(2)] v2Feedback_def)
  from first none c1 c2 show ?thesis by blast
qed

theorem checkGrammar_v2_check_witness:
  "grammarWords (toLowerCase (trim ''Spiser jeg.'')) = [''spiser'', ''jeg'']
   \<and> [''spiser'', ''jeg''] \<noteq> []
   \<and> count_list (diagnosticsOf (fst (checkGrammar (newVocabularyManager spiseVocabulary) ''Spiser jeg.''))) VerbNotSecond = 1
   \<and> count_list (diagnosticsOf (fst (checkGrammar (newVocabularyManager spiseVocabulary) ''Spiser jeg.''))) NoVerb = 0"
proof -
  let ?vm = "newVocabularyManager spiseVocabulary"
  have ws: "grammarWords (toLowerCase (trim ''Spiser jeg.'')) = [''spiser'', ''jeg'']"
    by code_simp
  have ne: "[''spiser'', ''jeg''] \<noteq> []" by simp
  have verb: "findVerb (fst (getAllVerbs ?vm)) (map (wordInfoOf (fst (getAllWords ?vm))) [''spiser'', ''jeg'']) = Some 0"
    by code_simp
  note v2 = checkGrammar_v2_check [OF ws ne refl refl refl, of ?vm, unfolded verb]
  from v2 have "count_list (diagnosticsOf (fst (checkGrammar ?vm ''Spiser jeg.''))) VerbNotSecond = 1"
    and "count_list (diagnosticsOf (fst (checkGrammar ?vm ''Spiser jeg.''))) NoVerb = 0"
    by simp_all
  with ws ne show ?thesis by blast
qed

lemma recognizeWord_Some:
  "recognizeWord aw w = Some ni \<Longrightarrow> word ni = w \<and> rootWord ni \<noteq> None \<and> originalWordData ni \<noteq> None"
  by (auto simp: recognizeWord_def find_Some_iff split: if_splits option.splits)

lemma word_wordInfoOf: "word (wordInfoOf aw w) = w"
  by (auto simp: wordInfoOf_def unknownInfo_def dest: recognizeWord_Some split: option.splits)

lemma category_wordInfoOf_known:
  "wordInfo.category (wordInfoOf aw w) \<noteq> ''unknown'' \<Longrightarrow> recognizeWord aw w \<noteq> None"
  by (cases "recognizeWord aw w") (auto simp: wordInfoOf_def unknownInfo_def)

lemma wordFeedback_Nil:
  "wordInfo.category wi = ''unknown'' \<or> (word wi \<noteq> ''en'' \<and> word wi \<noteq> ''et'') \<Longrightarrow> wordFeedback vm infos i wi = []"
  by (auto simp: wordFeedback_def)

lemma agreementAt_needs_article:
  assumes "agreementAt vm (map (wordInfoOf aw) ws) i \<noteq> []"
  shows "i < length ws \<and> (ws ! i = ''en'' \<or> ws ! i = ''et'')
         \<and> recognizeWord aw (ws ! i) \<noteq> None
         \<and> wordInfo.category (wordInfoOf aw (ws ! i)) \<noteq> ''unknown''"
proof -
  from assms have i: "i < length ws"
    by (auto simp: agreementAt_def infoAt_def split: if_splits)
  with assms have "wordFeedback vm (map (wordInfoOf aw) ws) i (wordInfoOf aw (ws ! i)) \<noteq> []"
    by (simp add: agreementAt_def infoAt_def)
  with wordFeedback_Nil [of "wordInfoOf aw (ws ! i)" vm "map (wordInfoOf aw) ws" i]
  have "wordInfo.category (wordInfoOf aw (ws ! i)) \<noteq> ''unknown''"
    and "ws ! i = ''en'' \<or> ws ! i = ''et''"
    by (auto simp: word_wordInfoOf)
  with i category_wordInfoOf_known show ?thesis by blast
qed

lemma concat_map_Nil: "(\<And>x. x \<in> set xs \<Longrightarrow> f x = []) \<Longrightarrow> concat (map f xs) = []"
  by (induction xs) simp_all

lemma list_all_kind_mono:
  "list_all (\<lambda>d. kindOf d = k) xs \<Longrightarrow> k \<noteq> k' \<Longrightarrow> list_all (\<lambda>d. kindOf d \<noteq> k') xs"
  by (induction xs) auto

text \<open>
  C9. The agreement check gives feedback for a position only if the word there is exactly
  \<open>en\<close> or \<open>et\<close> and that word itself was recognized, with a category other than
  \<open>unknown\<close>. So when neither \<open>en\<close> nor \<open>et\<close> is recognized against the index, the
  check gives no feedback from the agreement step at all: no article and noun mismatch and
  no adjective form message.
\<close>

theorem agreement_needs_resolved_article:
  "(agreementAt vm (map (wordInfoOf aw) ws) i \<noteq> [] \<longrightarrow>
      i < length ws \<and> (ws ! i = ''en'' \<or> ws ! i = ''et'')
      \<and> recognizeWord aw (ws ! i) \<noteq> None
      \<and> wordInfo.category (wordInfoOf aw (ws ! i)) \<noteq> ''unknown'')
   \<and> (recognizeWord (fst (getAllWords vm)) ''en'' = None
        \<and> recognizeWord (fst (getAllWords vm)) ''et'' = None \<longrightarrow>
        list_all (\<lambda>d. kindOf d \<noteq> Agreement) (diagnosticsOf (fst (checkGrammar vm input))))"
proof (intro conjI impI)
  assume "agreementAt vm (map (wordInfoOf aw) ws) i \<noteq> []"
  from agreementAt_needs_article [OF this]
  show "i < length ws" and "ws ! i = ''en'' \<or> ws ! i = ''et''"
    and "recognizeWord aw (ws ! i) \<noteq> None"
    and "wordInfo.category (wordInfoOf aw (ws ! i)) \<noteq> ''unknown''"
    by simp_all
next
  let ?aw = "fst (getAllWords vm)"
  let ?ws = "grammarWords (toLowerCase (trim input))"
  assume unres: "recognizeWord ?aw ''en'' = None \<and> recognizeWord ?aw ''et'' = None"
  show "list_all (\<lambda>d. kindOf d \<noteq> Agreement) (diagnosticsOf (fst (checkGrammar vm input)))"
  proof (cases "?ws = []")
    case True
    then have "fst (checkGrammar vm input) = WriteSentenceFirst"
      by (simp add: checkGrammar_fst Let_def)
    then show ?thesis by (simp add: diagnosticsOf_def)
  next
    case False
    have none: "agreementAt (cachesFilled vm) (map (wordInfoOf ?aw) ?ws) j = []" for j
    proof (rule ccontr)
      assume "agreementAt (cachesFilled vm) (map (wordInfoOf ?aw) ?ws) j \<noteq> []"
      from agreementAt_needs_article [OF this]
      have "?ws ! j = ''en'' \<or> ?ws ! j = ''et''" and "recognizeWord ?aw (?ws ! j) \<noteq> None"
        by simp_all
      with unres show False by auto
    qed
    have agr: "agreementFeedback (cachesFilled vm) (map (wordInfoOf ?aw) ?ws) = []"
      unfolding agreementFeedback_def by (rule concat_map_Nil) (rule none)
    have "diagnosticsOf (fst (checkGrammar vm input))
          = unknownWordFeedback ?aw ?ws
            @ v2Feedback ?ws (findVerb (fst (getAllVerbs vm)) (map (wordInfoOf ?aw) ?ws))
            @ conjugationFeedback (cachesFilled vm) ?ws (findVerb (fst (getAllVerbs vm)) (map (wordInfoOf ?aw) ?ws))"
      by (simp add: checkGrammar_analysed [OF refl False] grammarFeedback_def Let_def agr)
    then show ?thesis
      using list_all_kind_mono [OF kindOf_unknownWordFeedback, of Agreement ?aw ?ws]
        list_all_kind_mono [OF kindOf_v2Feedback, of Agreement]
        list_all_kind_mono [OF kindOf_conjugationFeedback, of Agreement]
      by simp
  qed
qed

theorem agreement_needs_resolved_article_witness:
  "agreementAt (newVocabularyManager articleVocabulary)
     (map (wordInfoOf (buildAllWords articleVocabulary)) [''en'', ''hus'']) 0 \<noteq> []
   \<and> (0::nat) < length [''en'', ''hus'']
   \<and> recognizeWord (buildAllWords articleVocabulary) ([''en'', ''hus''] ! 0) \<noteq> None
   \<and> recognizeWord (fst (getAllWords (newVocabularyManager nounOnlyVocabulary))) ''en'' = None
   \<and> recognizeWord (fst (getAllWords (newVocabularyManager nounOnlyVocabulary))) ''et'' = None
   \<and> list_all (\<lambda>d. kindOf d \<noteq> Agreement)
        (diagnosticsOf (fst (checkGrammar (newVocabularyManager nounOnlyVocabulary) ''en hus'')))"
proof -
  have a: "agreementAt (newVocabularyManager articleVocabulary)
     (map (wordInfoOf (buildAllWords articleVocabulary)) [''en'', ''hus'']) 0 \<noteq> []"
    by code_simp
  have u: "recognizeWord (fst (getAllWords (newVocabularyManager nounOnlyVocabulary))) ''en'' = None
     \<and> recognizeWord (fst (getAllWords (newVocabularyManager nounOnlyVocabulary))) ''et'' = None"
    by code_simp
  from agreement_needs_resolved_article
    [of "newVocabularyManager articleVocabulary" "buildAllWords articleVocabulary" "[''en'', ''hus'']" 0]
    a
  have p1: "(0::nat) < length [''en'', ''hus'']
     \<and> recognizeWord (buildAllWords articleVocabulary) ([''en'', ''hus''] ! 0) \<noteq> None"
    by blast
  from agreement_needs_resolved_article [of "newVocabularyManager nounOnlyVocabulary" _ _ _ "''en hus''"] u
  have p2: "list_all (\<lambda>d. kindOf d \<noteq> Agreement)
        (diagnosticsOf (fst (checkGrammar (newVocabularyManager nounOnlyVocabulary) ''en hus'')))"
    by blast
  from a p1 u p2 show ?thesis by blast
qed

lemma filter_other_kind: "list_all (\<lambda>d. kindOf d = k) xs \<Longrightarrow> k \<noteq> Agreement \<Longrightarrow> filter isGenderMismatch xs = []"
  by (induction xs) (auto simp: isGenderMismatch_def kindOf_def split: diagnostic.splits)

lemma rootData_cachesFilled:
  "rootWord ni = Some r \<Longrightarrow> rootData (cachesFilled vm) ni = mapGet (fst (getAllWords vm)) r"
  by (simp add: rootData_def getWordData_cachesFilled)

text \<open>
  C5, as the code has it. A sentence of two words, an article \<open>en\<close> or \<open>et\<close> and a
  noun, gets exactly one article and noun mismatch, naming the root of the noun, when the
  article itself is recognized (its category is not \<open>unknown\<close>), the second word is
  recognized with the category \<open>nouns\<close>, and the entry of its root has the property of
  the other article.
\<close>

theorem article_noun_mismatch:
  assumes ws: "grammarWords (toLowerCase (trim input)) = [article, noun]"
    and art: "article = ''en'' \<or> article = ''et''"
    and known: "wordInfo.category (wordInfoOf (fst (getAllWords vm)) article) \<noteq> ''unknown''"
    and ni: "recognizeWord (fst (getAllWords vm)) noun = Some ni"
    and cat: "wordInfo.category ni = ''nouns''"
    and r: "rootWord ni = Some r"
    and nd: "mapGet (fst (getAllWords vm)) r = Some nd"
    and opposite: "(article = ''en'' \<and> et nd \<noteq> None) \<or> (article = ''et'' \<and> en nd \<noteq> None)"
  shows "filter isGenderMismatch (diagnosticsOf (fst (checkGrammar vm input)))
         = [NounArticle r (if article = ''en'' then ''et'' else ''en'') article]"
proof -
  let ?aw = "fst (getAllWords vm)"
  let ?vm = "cachesFilled vm"
  let ?infos = "[wordInfoOf ?aw article, ni]"
  let ?verb = "findVerb (fst (getAllVerbs vm)) ?infos"
  have infos: "wordInfoOf ?aw noun = ni"
    by (simp add: wordInfoOf_def ni)
  have owd: "originalWordData ni \<noteq> None" and wni: "word ni = noun"
    using recognizeWord_Some [OF ni] by simp_all
  have direct: "directNounFeedback ?vm article ni
                = [NounArticle r (if article = ''en'' then ''et'' else ''en'') article]"
    using opposite art
    by (auto simp: directNounFeedback_def rootData_cachesFilled [OF r] nd Let_def r printNull_def
        articleNounFeedback_def)
  have at0: "agreementAt ?vm ?infos 0 = [NounArticle r (if article = ''en'' then ''et'' else ''en'') article]"
    using known art
    by (simp add: agreementAt_def infoAt_def wordFeedback_def word_wordInfoOf nextWordFeedback_def
        cat owd direct)
  have at1: "agreementAt ?vm ?infos (Suc 0) = []"
    by (simp add: agreementAt_def infoAt_def wordFeedback_def)
  have "[0..<length ?infos] = [0, Suc 0]" by (simp add: upt_rec)
  then have agr: "agreementFeedback ?vm ?infos = [NounArticle r (if article = ''en'' then ''et'' else ''en'') article]"
    by (simp add: agreementFeedback_def at0 at1)
  have fb: "diagnosticsOf (fst (checkGrammar vm input))
          = unknownWordFeedback ?aw [article, noun] @ v2Feedback [article, noun] ?verb
            @ conjugationFeedback ?vm [article, noun] ?verb @ agreementFeedback ?vm ?infos"
    using checkGrammar_analysed [OF ws, of vm] by (simp add: grammarFeedback_def Let_def infos)
  show ?thesis
    unfolding fb agr
    by (simp add: filter_other_kind [OF kindOf_unknownWordFeedback]
        filter_other_kind [OF kindOf_v2Feedback] filter_other_kind [OF kindOf_conjugationFeedback]
        isGenderMismatch_def)
qed

theorem article_noun_mismatch_witness:
  "grammarWords (toLowerCase (trim ''En hus.'')) = [''en'', ''hus'']
   \<and> wordInfo.category (wordInfoOf (fst (getAllWords (newVocabularyManager articleVocabulary))) ''en'') \<noteq> ''unknown''
   \<and> map_option wordInfo.category (recognizeWord (fst (getAllWords (newVocabularyManager articleVocabulary))) ''hus'') = Some ''nouns''
   \<and> map_option et (mapGet (fst (getAllWords (newVocabularyManager articleVocabulary))) ''hus'') = Some (Some ''a house'')
   \<and> filter isGenderMismatch (diagnosticsOf (fst (checkGrammar (newVocabularyManager articleVocabulary) ''En hus.'')))
       = [NounArticle ''hus'' ''et'' ''en'']"
proof -
  let ?vm = "newVocabularyManager articleVocabulary"
  let ?aw = "fst (getAllWords ?vm)"
  let ?nd = "rootRecord ''nouns'' ''A1'' (emptyEntry\<lparr>et := Some ''a house''\<rparr>)"
  let ?ni = "\<lparr>word = ''hus'', rootWord = Some ''hus'', category = ''nouns'', originalWordData = Some ?nd\<rparr>"
  have ws: "grammarWords (toLowerCase (trim ''En hus.'')) = [''en'', ''hus'']" by code_simp
  have known: "wordInfo.category (wordInfoOf ?aw ''en'') \<noteq> ''unknown''" by code_simp
  have ni: "recognizeWord ?aw ''hus'' = Some ?ni" by code_simp
  have nd: "mapGet ?aw ''hus'' = Some ?nd" by code_simp
  have opp: "(''en'' = ''en'' \<and> et ?nd \<noteq> None) \<or> (''en'' = ''et'' \<and> en ?nd \<noteq> None)"
    by (simp add: rootRecord_def emptyEntry_def)
  have "filter isGenderMismatch (diagnosticsOf (fst (checkGrammar ?vm ''En hus.'')))
       = [NounArticle ''hus'' ''et'' ''en'']"
    using article_noun_mismatch [OF ws _ known ni _ _ nd opp] by simp
  with ws known ni nd show ?thesis by (simp add: rootRecord_def emptyEntry_def)
qed

text \<open>
  C5, as stated, asks for the mismatch whenever an article is followed by a noun of the
  other gender. The agreement loop skips a position whose word is not recognized, the
  article included: with a dataset that holds the neuter noun \<open>hus\<close> and no article,
  "en hus" gets no mismatch.
\<close>

theorem unknown_article_gets_no_mismatch:
  "grammarWords (toLowerCase (trim ''en hus'')) = [''en'', ''hus'']
   \<and> map_option wordInfo.category (recognizeWord (fst (getAllWords (newVocabularyManager nounOnlyVocabulary))) ''hus'') = Some ''nouns''
   \<and> map_option et (mapGet (fst (getAllWords (newVocabularyManager nounOnlyVocabulary))) ''hus'') = Some (Some ''a house'')
   \<and> filter isGenderMismatch (diagnosticsOf (fst (checkGrammar (newVocabularyManager nounOnlyVocabulary) ''en hus''))) = []"
  by code_simp

section \<open>The claim about token resolution\<close>

lemma endsWith_te_et: "endsWith w ''te'' \<Longrightarrow> \<not> endsWith w ''et''"
  by (auto simp: endsWith_def)

lemma sliceOff_nonempty: "sliceOff w n \<noteq> [] \<longleftrightarrow> n < length w"
  by (auto simp: sliceOff_def)

lemma possibleRoots_spec: "possibleRoots w = w # specCandidates w"
  using endsWith_te_et [of w]
  by (auto simp: possibleRoots_def specCandidates_def specSuffixRules_def specCandidate_def
      sliceOff_nonempty)

lemma specCandidates_nonempty: "list_all (\<lambda>c. c \<noteq> []) (specCandidates w)"
  by (simp add: specCandidates_def specSuffixRules_def specCandidate_def)

lemma mapHas_mapGet: "mapHas m k \<longleftrightarrow> mapGet m k \<noteq> None"
  by (simp add: mapHas_def mapGet_def)

lemma mapHas_fun: "mapHas m = (\<lambda>t. map_of m t \<noteq> None)"
  by (simp add: fun_eq_iff mapHas_def)

text \<open>
  C3. The root and the category that the word recognition stores for a token are those of
  the resolution in the specification's words: the exact lookup first, then the four
  suffix rules in their order, the first candidate in the index winning, and \<open>unknown\<close>
  with no root when there is none. The source tests \<open>te\<close> and \<open>et\<close> one after the other;
  no token ends in both, so the two tests are the one 2-character rule of the
  specification. There are four rules, and no candidate is the empty string.
\<close>

theorem recognizeWord_refines_spec:
  "(rootWord (wordInfoOf allForms w), wordInfo.category (wordInfoOf allForms w)) = specResolve allForms w
   \<and> length specSuffixRules = 4
   \<and> list_all (\<lambda>c. c \<noteq> []) (specCandidates w)"
proof -
  have "(rootWord (wordInfoOf allForms w), wordInfo.category (wordInfoOf allForms w)) = specResolve allForms w"
  proof (cases "mapGet allForms w")
    case (Some d)
    then show ?thesis
      by (simp add: wordInfoOf_def recognizeWord_def specResolve_def mapHas_mapGet)
  next
    case None
    show ?thesis
    proof (cases "List.find (\<lambda>t. map_of allForms t \<noteq> None) (specCandidates w)")
      case none: None
      with None show ?thesis
        by (simp add: wordInfoOf_def recognizeWord_def specResolve_def mapHas_fun mapGet_def
            possibleRoots_spec unknownInfo_def)
    next
      case (Some c)
      with None show ?thesis
        by (simp add: wordInfoOf_def recognizeWord_def specResolve_def mapHas_fun mapGet_def
            possibleRoots_spec)
    qed
  qed
  then show ?thesis
    by (simp add: specCandidates_nonempty specSuffixRules_def)
qed

theorem recognizeWord_refines_spec_witness:
  "specResolve (buildAllWords articleVocabulary) ''huset'' = (Some ''hus'', ''nouns'')
   \<and> rootWord (wordInfoOf (buildAllWords articleVocabulary) ''huset'') = Some ''hus''
   \<and> wordInfo.category (wordInfoOf (buildAllWords articleVocabulary) ''huset'') = ''nouns''
   \<and> specCandidates ''huset'' = [''hus'', ''huse'']"
proof -
  have s: "specResolve (buildAllWords articleVocabulary) ''huset'' = (Some ''hus'', ''nouns'')"
    by code_simp
  have c: "specCandidates ''huset'' = [''hus'', ''huse'']"
    by code_simp
  from recognizeWord_refines_spec [of "buildAllWords articleVocabulary" "''huset''"] s c
  show ?thesis by simp
qed

section \<open>The claim about the conjugation check\<close>

text \<open>
  C2. The conjugation check should read the entry of the verb's root and compare the token
  with its present form. The source looks the entry up under \<open>verbInfo.root || verbWord\<close>,
  and the stored info has no property \<open>root\<close> (the root is in \<open>rootWord\<close>), so it reads the
  record of the token itself. For the past form \<open>spiste\<close> that is the derived record, which
  has no \<open>conjugations\<close>: "jeg spiste" gets no feedback at all, where the present form
  \<open>spiser\<close> is expected. For the infinitive \<open>spise\<close> the entry is found, and the test
  \<open>verbWord === verbRootData.root\<close> reads a property that a root entry does not have: the
  feedback is the message for a wrong conjugation, not the one for an infinitive.
\<close>

theorem checkGrammar_conjugation_check_misses_root:
  "fst (checkGrammar (newVocabularyManager spiseVocabulary) ''jeg spiste'') = LooksGood
   \<and> fst (checkGrammar (newVocabularyManager spiseVocabulary) ''jeg spise'')
       = ThingsToWorkOn [WrongConjugation ''spise'' ''spiser'']"
  by code_simp

section \<open>The claim about repeated runs\<close>

lemma getAllWords_keeps:
  "vocabulary (snd (getAllWords vm)) = vocabulary vm"
  "allVerbsCache (snd (getAllWords vm)) = allVerbsCache vm"
  "allNounsCache (snd (getAllWords vm)) = allNounsCache vm"
  "allAdjectivesCache (snd (getAllWords vm)) = allAdjectivesCache vm"
  by (simp_all add: getAllWords_def Let_def split: option.splits)

lemma getAllVerbs_keeps:
  "vocabulary (snd (getAllVerbs vm)) = vocabulary vm"
  "allNounsCache (snd (getAllVerbs vm)) = allNounsCache vm"
  "allAdjectivesCache (snd (getAllVerbs vm)) = allAdjectivesCache vm"
  by (simp_all add: getAllVerbs_def Let_def split: option.splits)

lemma getAllNouns_keeps:
  "vocabulary (snd (getAllNouns vm)) = vocabulary vm"
  "allVerbsCache (snd (getAllNouns vm)) = allVerbsCache vm"
  "allAdjectivesCache (snd (getAllNouns vm)) = allAdjectivesCache vm"
  by (simp_all add: getAllNouns_def Let_def split: option.splits)

lemma getAllAdjectives_keeps:
  "vocabulary (snd (getAllAdjectives vm)) = vocabulary vm"
  "allVerbsCache (snd (getAllAdjectives vm)) = allVerbsCache vm"
  "allNounsCache (snd (getAllAdjectives vm)) = allNounsCache vm"
  by (simp_all add: getAllAdjectives_def Let_def split: option.splits)

lemma getAllVerbs_cache: "allVerbsCache (snd (getAllVerbs vm)) = Some (fst (getAllVerbs vm))"
  by (simp add: getAllVerbs_def Let_def split: option.splits)

lemma getAllNouns_cache: "allNounsCache (snd (getAllNouns vm)) = Some (fst (getAllNouns vm))"
  by (simp add: getAllNouns_def Let_def split: option.splits)

lemma getAllAdjectives_cache: "allAdjectivesCache (snd (getAllAdjectives vm)) = Some (fst (getAllAdjectives vm))"
  by (simp add: getAllAdjectives_def Let_def split: option.splits)

lemma getAllVerbs_cached: "allVerbsCache vm = Some c \<Longrightarrow> getAllVerbs vm = (c, vm)"
  by (simp add: getAllVerbs_def)

lemma getAllNouns_cached: "allNounsCache vm = Some c \<Longrightarrow> getAllNouns vm = (c, vm)"
  by (simp add: getAllNouns_def)

lemma getAllAdjectives_cached: "allAdjectivesCache vm = Some c \<Longrightarrow> getAllAdjectives vm = (c, vm)"
  by (simp add: getAllAdjectives_def)

lemma cachesFilled_caches:
  "allVerbsCache (cachesFilled vm) = Some (fst (getAllVerbs vm))"
  "allNounsCache (cachesFilled vm) \<noteq> None"
  "allAdjectivesCache (cachesFilled vm) \<noteq> None"
  "vocabulary (cachesFilled vm) = vocabulary vm"
proof -
  have "fst (getAllVerbs (snd (getAllWords vm))) = fst (getAllVerbs vm)"
    by (rule getAllVerbs_after_getAllWords)
  then show "allVerbsCache (cachesFilled vm) = Some (fst (getAllVerbs vm))"
    by (simp add: cachesFilled_def getAllAdjectives_keeps getAllNouns_keeps getAllVerbs_cache)
  show "allNounsCache (cachesFilled vm) \<noteq> None"
    by (simp add: cachesFilled_def getAllAdjectives_keeps getAllNouns_cache)
  show "allAdjectivesCache (cachesFilled vm) \<noteq> None"
    by (simp add: cachesFilled_def getAllAdjectives_cache)
  show "vocabulary (cachesFilled vm) = vocabulary vm"
    by (simp add: cachesFilled_def getAllAdjectives_keeps getAllNouns_keeps getAllVerbs_keeps
        getAllWords_keeps)
qed

lemma cachesFilled_fixed:
  assumes "allWordsCache vm \<noteq> None" "allVerbsCache vm \<noteq> None" "allNounsCache vm \<noteq> None"
    "allAdjectivesCache vm \<noteq> None"
  shows "cachesFilled vm = vm"
proof -
  from assms obtain a b c d where "allWordsCache vm = Some a" "allVerbsCache vm = Some b"
    "allNounsCache vm = Some c" "allAdjectivesCache vm = Some d"
    by auto
  then show ?thesis
    by (simp add: cachesFilled_def getAllWords_cached getAllVerbs_cached getAllNouns_cached
        getAllAdjectives_cached)
qed

lemma cachesFilled_idem: "cachesFilled (cachesFilled vm) = cachesFilled vm"
  by (rule cachesFilled_fixed) (simp_all add: cachesFilled_allWordsCache cachesFilled_caches)

lemma getAllWords_cachesFilled: "getAllWords (cachesFilled vm) = (fst (getAllWords vm), cachesFilled vm)"
  by (simp add: getAllWords_cached [OF cachesFilled_allWordsCache])

lemma getAllVerbs_cachesFilled: "fst (getAllVerbs (cachesFilled vm)) = fst (getAllVerbs vm)"
  by (simp add: getAllVerbs_cached [OF cachesFilled_caches(1)])

lemma cachesFilled_getAllWords: "cachesFilled (snd (getAllWords vm)) = cachesFilled vm"
  by (simp add: cachesFilled_def getAllWords_again)

lemma translateSentenceWords_snd: "snd (translateSentenceWords vm s) = snd (getAllWords vm)"
  by (simp add: translateSentenceWords_def Let_def split_beta split: option.splits)

lemma translateSentenceWords_fst:
  "fst (translateSentenceWords vm s) =
     (case List.find (exampleMatches s) (mapValues (fst (getAllWords vm))) of
        Some wd \<Rightarrow> translated wd
      | None \<Rightarrow>
          Some (phraseRepair (joinWith '' ''
            (map joinElement (map (translateWord (vocabulary vm) (fst (getAllWords vm))) (translationWords s))))))"
  by (simp add: translateSentenceWords_def Let_def split_beta getAllWords_keeps split: option.splits)

text \<open>
  C10. The only state that \<open>checkGrammar\<close> and \<open>translateSentenceWords\<close> read and write
  besides their input is the manager with its caches. Whatever the manager holds, a second
  run on the manager the first run leaves gives the same mentor text, respectively the
  same translation, and neither operation changes what the other gives afterwards.
\<close>

theorem runs_are_repeatable:
  "fst (checkGrammar (snd (checkGrammar vm input)) input) = fst (checkGrammar vm input)
   \<and> fst (translateSentenceWords (snd (translateSentenceWords vm sentence)) sentence)
       = fst (translateSentenceWords vm sentence)
   \<and> fst (checkGrammar (snd (translateSentenceWords vm sentence)) input) = fst (checkGrammar vm input)
   \<and> fst (translateSentenceWords (snd (checkGrammar vm input)) sentence)
       = fst (translateSentenceWords vm sentence)"
proof (intro conjI)
  show "fst (checkGrammar (snd (checkGrammar vm input)) input) = fst (checkGrammar vm input)"
    by (simp add: checkGrammar_fst checkGrammar_snd cachesFilled_idem getAllWords_cachesFilled
        getAllVerbs_cachesFilled Let_def)
  show "fst (translateSentenceWords (snd (translateSentenceWords vm sentence)) sentence)
       = fst (translateSentenceWords vm sentence)"
    by (simp add: translateSentenceWords_fst translateSentenceWords_snd getAllWords_again
        getAllWords_keeps cong: option.case_cong)
  show "fst (checkGrammar (snd (translateSentenceWords vm sentence)) input) = fst (checkGrammar vm input)"
    by (simp add: checkGrammar_fst translateSentenceWords_snd getAllWords_again
        getAllVerbs_after_getAllWords cachesFilled_getAllWords Let_def)
  show "fst (translateSentenceWords (snd (checkGrammar vm input)) sentence)
       = fst (translateSentenceWords vm sentence)"
    by (simp add: translateSentenceWords_fst checkGrammar_snd getAllWords_cachesFilled
        cachesFilled_caches cong: option.case_cong)
qed

section \<open>The claims about the translation\<close>

text \<open>
  C7, as the code has it. The shortcut loop goes through the records of the index in the
  order of insertion and returns at the first one whose example is not empty and equals
  the sentence once both are in lower case. So for the first such record of the index,
  \<open>translateSentenceWords\<close> gives exactly its stored translation: no word is translated
  and the final pass does not run.
\<close>

theorem translateSentenceWords_example_shortcut:
  assumes "i < length (mapValues (fst (getAllWords vm)))"
    and "exampleMatches sentence (mapValues (fst (getAllWords vm)) ! i)"
    and "\<forall>j<i. \<not> exampleMatches sentence (mapValues (fst (getAllWords vm)) ! j)"
  shows "fst (translateSentenceWords vm sentence) = translated (mapValues (fst (getAllWords vm)) ! i)"
proof -
  from assms have "List.find (exampleMatches sentence) (mapValues (fst (getAllWords vm)))
                   = Some (mapValues (fst (getAllWords vm)) ! i)"
    unfolding find_Some_iff by blast
  then show ?thesis by (simp add: translateSentenceWords_fst)
qed

theorem translateSentenceWords_example_shortcut_witness:
  "(0::nat) < length (mapValues (fst (getAllWords (newVocabularyManager exampleVocabulary))))
   \<and> exampleMatches ''JEG spiser.'' (mapValues (fst (getAllWords (newVocabularyManager exampleVocabulary))) ! 0)
   \<and> fst (translateSentenceWords (newVocabularyManager exampleVocabulary) ''JEG spiser.'') = Some ''I am eating.''"
proof -
  let ?vm = "newVocabularyManager exampleVocabulary"
  have l: "(0::nat) < length (mapValues (fst (getAllWords ?vm)))" by code_simp
  have m: "exampleMatches ''JEG spiser.'' (mapValues (fst (getAllWords ?vm)) ! 0)" by code_simp
  have t: "translated (mapValues (fst (getAllWords ?vm)) ! 0) = Some ''I am eating.''" by code_simp
  from translateSentenceWords_example_shortcut [OF l m] t
  have "fst (translateSentenceWords ?vm ''JEG spiser.'') = Some ''I am eating.''" by simp
  with l m show ?thesis by blast
qed

lemma phraseRepair_hunden: "phraseRepair ''hunden'' = ''hunden''"
proof -
  have "searchFrom toInfinitivePattern ''hunden'' 0 = None" by code_simp
  moreover have "searchFrom presentPattern ''hunden'' 0 = None" by code_simp
  moreover have "searchFrom theArticlePattern ''hunden'' 0 = None" by code_simp
  moreover have "searchFrom doubleArticlePattern ''hunden'' 0 = None" by code_simp
  moreover have "searchFrom aAnPattern ''hunden'' 0 = None" by code_simp
  moreover have "searchFrom anAPattern ''hunden'' 0 = None" by code_simp
  ultimately show ?thesis
    by (simp add: phraseRepair_def replaceAll_def replaceFirst_def replaceFrom.simps)
qed

text \<open>
  C7, as stated, speaks of every entry of the vocabulary. The loop reads the index, which
  has one record for each key: in \<open>twoLevelVocabulary\<close> the root \<open>hund\<close> of level B1
  replaces the one of level A1, whose example "Hunden" is then in no record. The sentence
  "hunden" equals that example without regard to case, and is translated word by word.
\<close>

theorem translateSentenceWords_example_not_in_index:
  "map_of (the (map_of (the (map_of twoLevelVocabulary ''A1'')) ''nouns'')) ''hund'' = Some hundEntry
   \<and> example hundEntry = Some ''Hunden''
   \<and> toLowerCase ''Hunden'' = toLowerCase ''hunden''
   \<and> translated hundEntry = Some ''The dog''
   \<and> fst (translateSentenceWords (newVocabularyManager twoLevelVocabulary) ''hunden'') = Some ''hunden''"
proof -
  let ?vm = "newVocabularyManager twoLevelVocabulary"
  have e: "map_of (the (map_of (the (map_of twoLevelVocabulary ''A1'')) ''nouns'')) ''hund'' = Some hundEntry
     \<and> example hundEntry = Some ''Hunden'' \<and> toLowerCase ''Hunden'' = toLowerCase ''hunden''
     \<and> translated hundEntry = Some ''The dog''"
    by code_simp
  have f: "List.find (exampleMatches ''hunden'') (mapValues (fst (getAllWords ?vm))) = None"
    by code_simp
  have j: "joinWith '' '' (map joinElement (map (translateWord (vocabulary ?vm) (fst (getAllWords ?vm)))
             (translationWords ''hunden''))) = ''hunden''"
    by code_simp
  have "fst (translateSentenceWords ?vm ''hunden'') = Some ''hunden''"
    by (simp only: translateSentenceWords_fst f j phraseRepair_hunden option.case)
  with e show ?thesis by blast
qed














end
